theory Spec2Isabelle
  imports Main "HOL-Library.Char_ord" "HOL-Library.List_Lexorder" "HOL-Library.Sublist"
begin

section \<open>Go library functions on strings\<close>

text \<open>
  Go strings are byte sequences and \<open>string\<close> is a list of 8-bit characters, so
  Go's \<open><\<close> and \<open>>\<close> on strings (bytewise lexicographic, a proper prefix is smaller)
  are the order of \<open>HOL-Library.List_Lexorder\<close> over \<open>HOL-Library.Char_ord\<close>.
\<close>

text \<open>
  Go's \<open>error\<close> values, as far as the program can tell them apart: the two errors of
  \<open>strconv\<close>, the errors of the operating system by their \<open>errno\<close>, and any other
  library error by its message.
\<close>

datatype go_error = ErrSyntax | ErrRange | ENOENT | ENOTDIR | EISDIR | ENOTEMPTY | Err string

text \<open>
  \<open>strings.Split(s, sep)\<close> for a separator of one byte (the program only splits on
  \<open>"."\<close>; the path functions below split on \<open>"/"\<close>): the pieces between the
  separators, so the empty string gives one empty piece.
\<close>

fun strings_Split :: "string \<Rightarrow> char \<Rightarrow> string list" where
  "strings_Split [] sep = [[]]"
| "strings_Split (c # cs) sep =
     (if c = sep then [] # strings_Split cs sep
      else (case strings_Split cs sep of
              [] \<Rightarrow> [[c]]
            | p # ps \<Rightarrow> (c # p) # ps))"

text \<open>
  \<open>strings.Index(s, substr)\<close> for a substring of one byte: the index of its first
  occurrence, \<open>-1\<close> when there is none.
\<close>

fun strings_Index :: "string \<Rightarrow> char \<Rightarrow> int" where
  "strings_Index [] x = - 1"
| "strings_Index (c # cs) x =
     (if c = x then 0
      else (let i = strings_Index cs x in if i < 0 then - 1 else i + 1))"

definition is_digit :: "char \<Rightarrow> bool" where
  "is_digit c = (CHR ''0'' \<le> c \<and> c \<le> CHR ''9'')"

definition digit_val :: "char \<Rightarrow> int" where
  "digit_val c = int (of_char c) - 48"

text \<open>
  \<open>strconv.Atoi\<close>: an optional sign, then one or more decimal digits and nothing
  else (\<open>ErrSyntax\<close> otherwise); the value must fit Go's \<open>int\<close>, taken as 64 bits
  (\<open>ErrRange\<close> otherwise).
\<close>

definition strconv_Atoi :: "string \<Rightarrow> go_error + int" where
  "strconv_Atoi s =
     (let neg = (s \<noteq> [] \<and> hd s = CHR ''-'');
          ds = (if s \<noteq> [] \<and> (hd s = CHR ''-'' \<or> hd s = CHR ''+'') then tl s else s)
      in if ds = [] \<or> \<not> list_all is_digit ds then Inl ErrSyntax
         else (let n = foldl (\<lambda>a c. a * 10 + digit_val c) 0 ds;
                   v = (if neg then - n else n)
               in if v < - (2 ^ 63) \<or> 2 ^ 63 - 1 < v then Inl ErrRange else Inr v))"

section \<open>Version strings (main.go)\<close>

text \<open>
  \<open>sanitizeVersion\<close> (main.go, lines 309-314) drops the first byte when the string
  starts with \<open>"v"\<close>; it mutates its argument, the model returns the new string.
\<close>

definition sanitizeVersion :: "string \<Rightarrow> string" where
  "sanitizeVersion v = (if strings_Index v (CHR ''v'') = 0 then drop 1 v else v)"

text \<open>
  \<open>isVersionValueValid\<close> (lines 92-101): the loop over the pieces returns false at
  the first piece that \<open>Atoi\<close> rejects or reads as negative.
\<close>

fun isVersionValueValid_loop :: "string list \<Rightarrow> bool" where
  "isVersionValueValid_loop [] = True"
| "isVersionValueValid_loop (part # parts) =
     (case strconv_Atoi part of
        Inl err \<Rightarrow> False
      | Inr n \<Rightarrow> if n < 0 then False else isVersionValueValid_loop parts)"

definition isVersionValueValid :: "string \<Rightarrow> bool" where
  "isVersionValueValid version = isVersionValueValid_loop (strings_Split version (CHR ''.''))"

definition splitSemver :: "string \<Rightarrow> string list" where
  "splitSemver version = strings_Split version (CHR ''.'')"

text \<open>
  \<open>existsNewerVersion\<close> (lines 120-127) ranges over the indices of \<open>current\<close> and
  reads \<open>previous\<close> at the same index. Go panics on an index past the end of a
  slice; the model returns the panic as a value.
\<close>

datatype panic = IndexOutOfRange nat nat

fun existsNewerVersion_loop :: "string list \<Rightarrow> string list \<Rightarrow> nat list \<Rightarrow> panic + bool" where
  "existsNewerVersion_loop previous current [] = Inr False"
| "existsNewerVersion_loop previous current (i # rest) =
     (if length previous \<le> i then Inl (IndexOutOfRange i (length previous))
      else if current ! i > previous ! i then Inr True
      else existsNewerVersion_loop previous current rest)"

definition existsNewerVersion :: "string list \<Rightarrow> string list \<Rightarrow> panic + bool" where
  "existsNewerVersion previous current =
     existsNewerVersion_loop previous current [0..<length current]"

section \<open>Paths\<close>

text \<open>\<open>strings.Join(elems, sep)\<close>.\<close>

fun strings_Join :: "string list \<Rightarrow> string \<Rightarrow> string" where
  "strings_Join [] sep = []"
| "strings_Join [x] sep = x"
| "strings_Join (x # y # ys) sep = x @ sep @ strings_Join (y # ys) sep"

text \<open>
  \<open>path.Clean\<close> works through the elements between slashes with the output built so
  far: an empty element and \<open>"."\<close> are dropped; \<open>".."\<close> removes the last element
  of the output when that is a name, is dropped at the root of a rooted path, and is
  kept otherwise. The result is \<open>"."\<close> when nothing is left of a relative path.
\<close>

definition clean_step :: "bool \<Rightarrow> string list \<Rightarrow> string \<Rightarrow> string list" where
  "clean_step rooted out c =
     (if c = [] \<or> c = ''.'' then out
      else if c = ''..'' then
        (if out \<noteq> [] \<and> last out \<noteq> ''..'' then butlast out
         else if rooted then out
         else out @ [''..''])
      else out @ [c])"

definition path_Clean :: "string \<Rightarrow> string" where
  "path_Clean p =
     (if p = [] then ''.''
      else (let rooted = (hd p = CHR ''/'');
                out = foldl (clean_step rooted) [] (strings_Split p (CHR ''/''))
            in if rooted then CHR ''/'' # strings_Join out ''/''
               else if out = [] then ''.''
               else strings_Join out ''/''))"

text \<open>
  \<open>path.Join\<close>: the elements from the first non-empty one on, joined with slashes
  and cleaned; the empty string when every element is empty. On Unix
  \<open>filepath.Join\<close> is the same function.
\<close>

fun path_Join :: "string list \<Rightarrow> string" where
  "path_Join [] = []"
| "path_Join (e # es) =
     (if e \<noteq> [] then path_Clean (strings_Join (e # es) ''/'') else path_Join es)"

definition filepath_Join :: "string list \<Rightarrow> string" where
  "filepath_Join elem = path_Join elem"

section \<open>The file system\<close>

text \<open>
  The file system is a finite table from absolute paths, as lists of names from the
  root, to nodes: a directory, or a regular file with its bytes. The first entry for a
  path is the current one. The root is always a directory. Permissions, links and
  failures of the device are not modelled: an operation fails only for the shape of
  the tree (a missing parent, a file where a directory is needed, and so on).

  The operating system resolves a path string against the working directory, name by
  name; the empty string names nothing.
\<close>

type_synonym fpath = "string list"

datatype node = DirN | FileN string

type_synonym filesystem = "(fpath \<times> node) list"

definition fs_lookup :: "filesystem \<Rightarrow> fpath \<Rightarrow> node option" where
  "fs_lookup fs p = (if p = [] then Some DirN else map_of fs p)"

definition is_file :: "filesystem \<Rightarrow> fpath \<Rightarrow> bool" where
  "is_file fs p = (case fs_lookup fs p of Some (FileN d) \<Rightarrow> True | _ \<Rightarrow> False)"

definition file_above :: "filesystem \<Rightarrow> fpath \<Rightarrow> bool" where
  "file_above fs p = list_ex (\<lambda>n. is_file fs (take n p)) [0..<length p]"

definition children :: "filesystem \<Rightarrow> fpath \<Rightarrow> string list" where
  "children fs p = remdups (map last (filter (\<lambda>q. q \<noteq> [] \<and> butlast q = p) (map fst fs)))"

definition resolve :: "string \<Rightarrow> string \<Rightarrow> fpath option" where
  "resolve wd name =
     (if name = [] then None
      else Some (foldl (clean_step True) []
                  (strings_Split (if hd name = CHR ''/'' then name else wd @ ''/'' @ name)
                     (CHR ''/''))))"

definition locate :: "string \<Rightarrow> filesystem \<Rightarrow> string \<Rightarrow> go_error + fpath" where
  "locate wd fs name =
     (case resolve wd name of
        None \<Rightarrow> Inl ENOENT
      | Some p \<Rightarrow> if file_above fs p then Inl ENOTDIR else Inr p)"

definition os_Stat :: "string \<Rightarrow> filesystem \<Rightarrow> string \<Rightarrow> go_error + node" where
  "os_Stat wd fs name =
     (case locate wd fs name of
        Inl e \<Rightarrow> Inl e
      | Inr p \<Rightarrow> (case fs_lookup fs p of None \<Rightarrow> Inl ENOENT | Some n \<Rightarrow> Inr n))"

definition os_IsNotExist :: "go_error \<Rightarrow> bool" where
  "os_IsNotExist err = (err = ENOENT)"

text \<open>
  \<open>os.Open\<close> opens a file or a directory for reading. The model hands back what
  reading from it gives: the bytes of a file, an error for a directory.
\<close>

definition os_Open :: "string \<Rightarrow> filesystem \<Rightarrow> string \<Rightarrow> go_error + (go_error + string)" where
  "os_Open wd fs name =
     (case os_Stat wd fs name of
        Inl err \<Rightarrow> Inl err
      | Inr DirN \<Rightarrow> Inr (Inl EISDIR)
      | Inr (FileN bytes) \<Rightarrow> Inr (Inr bytes))"

text \<open>
  \<open>os.MkdirAll\<close> creates the directory and every missing parent; it fails when the
  path or a parent is a regular file and does nothing when the directory exists.
\<close>

definition mkdir_missing :: "filesystem \<Rightarrow> fpath \<Rightarrow> filesystem" where
  "mkdir_missing fs p =
     map (\<lambda>n. (take n p, DirN))
       (filter (\<lambda>n. fs_lookup fs (take n p) = None) [1..<Suc (length p)]) @ fs"

definition os_MkdirAll :: "string \<Rightarrow> filesystem \<Rightarrow> string \<Rightarrow> go_error option \<times> filesystem" where
  "os_MkdirAll wd fs name =
     (case locate wd fs name of
        Inl e \<Rightarrow> (Some e, fs)
      | Inr p \<Rightarrow> if is_file fs p then (Some ENOTDIR, fs) else (None, mkdir_missing fs p))"

definition ioutil_ReadFile :: "string \<Rightarrow> filesystem \<Rightarrow> string \<Rightarrow> go_error + string" where
  "ioutil_ReadFile wd fs name =
     (case locate wd fs name of
        Inl e \<Rightarrow> Inl e
      | Inr p \<Rightarrow> (case fs_lookup fs p of
                   None \<Rightarrow> Inl ENOENT
                 | Some DirN \<Rightarrow> Inl EISDIR
                 | Some (FileN d) \<Rightarrow> Inr d))"

text \<open>
  Opening a file for writing with \<open>O_CREATE\<close> needs the parent directory to exist
  and the path not to be a directory. \<open>ioutil.WriteFile\<close> also truncates: the file's
  content becomes the data.
\<close>

definition writable :: "filesystem \<Rightarrow> fpath \<Rightarrow> go_error option" where
  "writable fs p =
     (if fs_lookup fs p = Some DirN then Some EISDIR
      else if fs_lookup fs (butlast p) \<noteq> Some DirN then Some ENOENT
      else None)"

definition ioutil_WriteFile ::
  "string \<Rightarrow> filesystem \<Rightarrow> string \<Rightarrow> string \<Rightarrow> go_error option \<times> filesystem" where
  "ioutil_WriteFile wd fs name d =
     (case locate wd fs name of
        Inl e \<Rightarrow> (Some e, fs)
      | Inr p \<Rightarrow> (case writable fs p of
                   Some e \<Rightarrow> (Some e, fs)
                 | None \<Rightarrow> (None, (p, FileN d) # fs)))"

text \<open>
  \<open>os.OpenFile(name, O_CREATE|O_RDWR, mode)\<close> creates an empty file when there is
  none and keeps the content of one that exists (no \<open>O_TRUNC\<close>). The handle is the
  path of the file. \<open>io.Copy\<close> to the fresh handle writes from offset 0 over the
  old bytes, and hands back the error the source of the bytes ran into, if any.
\<close>

definition os_OpenFile :: "string \<Rightarrow> filesystem \<Rightarrow> string \<Rightarrow> go_error + (fpath \<times> filesystem)" where
  "os_OpenFile wd fs name =
     (case locate wd fs name of
        Inl e \<Rightarrow> Inl e
      | Inr p \<Rightarrow> (case writable fs p of
                   Some e \<Rightarrow> Inl e
                 | None \<Rightarrow> Inr (p, if fs_lookup fs p = None then (p, FileN []) # fs else fs)))"

definition io_Copy ::
  "filesystem \<Rightarrow> fpath \<Rightarrow> string \<Rightarrow> go_error option \<Rightarrow> go_error option \<times> filesystem" where
  "io_Copy fs f d read_err =
     (let old = (case fs_lookup fs f of Some (FileN b) \<Rightarrow> b | _ \<Rightarrow> [])
      in (read_err, (f, FileN (d @ drop (length d) old)) # fs))"

text \<open>\<open>ioutil.ReadDir\<close> gives the names in the directory, sorted.\<close>

definition ioutil_ReadDir :: "string \<Rightarrow> filesystem \<Rightarrow> string \<Rightarrow> go_error + string list" where
  "ioutil_ReadDir wd fs name =
     (case locate wd fs name of
        Inl e \<Rightarrow> Inl e
      | Inr p \<Rightarrow> (case fs_lookup fs p of
                   None \<Rightarrow> Inl ENOENT
                 | Some (FileN d) \<Rightarrow> Inl ENOTDIR
                 | Some DirN \<Rightarrow> Inr (sort (children fs p))))"

text \<open>
  \<open>os.RemoveAll\<close> removes the path and everything below it, and succeeds when there
  is nothing to remove. It removes what it can and returns the first error it ran
  into; why a node cannot be removed (a directory that may not be written to) is not
  something the tree shows, so the caller of the model says whether it fails, with
  which error, and which nodes at or below the path it then leaves. \<open>os.Remove\<close>
  removes a file or an empty directory.
\<close>

definition os_RemoveAll ::
  "(go_error \<times> (fpath \<Rightarrow> bool)) option \<Rightarrow> string \<Rightarrow> filesystem \<Rightarrow> string
     \<Rightarrow> go_error option \<times> filesystem" where
  "os_RemoveAll fault wd fs name =
     (case resolve wd name of
        None \<Rightarrow> (None, fs)
      | Some p \<Rightarrow>
          (case fault of
             None \<Rightarrow> (None, filter (\<lambda>(q, n). \<not> prefix p q) fs)
           | Some (err, left) \<Rightarrow> (Some err, filter (\<lambda>(q, n). \<not> prefix p q \<or> left q) fs)))"

definition os_Remove :: "string \<Rightarrow> filesystem \<Rightarrow> string \<Rightarrow> go_error option \<times> filesystem" where
  "os_Remove wd fs name =
     (case locate wd fs name of
        Inl e \<Rightarrow> (Some e, fs)
      | Inr p \<Rightarrow> (case fs_lookup fs p of
                   None \<Rightarrow> (Some ENOENT, fs)
                 | Some (FileN d) \<Rightarrow> (None, filter (\<lambda>(q, n). q \<noteq> p) fs)
                 | Some DirN \<Rightarrow>
                     if p = [] \<or> children fs p \<noteq> [] then (Some ENOTEMPTY, fs)
                     else (None, filter (\<lambda>(q, n). q \<noteq> p) fs)))"

section \<open>The world around the program\<close>

text \<open>
  What the libraries and the network answer is a parameter of every run: the result
  of parsing the command line (the value of \<open>--out\<close>), the working directory and
  whether \<open>os.Getwd\<close> fails, the answer to each HTTP GET, the JSON and YAML codecs,
  the gzip and tar readers (from the bytes of an archive to what the successive calls
  of \<open>tr.Next()\<close> return before \<open>io.EOF\<close>), \<open>copier.Copy\<close> of
  \<open>github.com/otiai10/copy\<close>, and the error \<open>os.RemoveAll\<close> runs into, if any.
\<close>

record GithubResponse =
  URL :: string
  TagName :: string
  TarballURL :: string

record VersionFile =
  Version :: string

record tar_Header =
  Name :: string
  Typeflag :: char
  Mode :: int

definition tar_TypeReg :: char where
  "tar_TypeReg = CHR ''0''"

definition tar_TypeDir :: char where
  "tar_TypeDir = CHR ''5''"

text \<open>
  One call of \<open>tr.Next()\<close>: an error, a nil header without an error, or a header
  followed by the bytes of the entry and the error reading them ran into, if any.
\<close>

datatype tar_next = NextErr go_error | NextNil | NextHeader tar_Header string "go_error option"

record env =
  docopt_out :: "go_error + string"
  cwd :: string
  getwd_err :: "go_error option"
  http_get :: "string \<Rightarrow> go_error + string"
  json_Unmarshal :: "string \<Rightarrow> go_error + GithubResponse"
  yaml_Unmarshal :: "string \<Rightarrow> go_error + VersionFile"
  yaml_Marshal :: "VersionFile \<Rightarrow> go_error + string"
  gzip_tar :: "string \<Rightarrow> go_error + tar_next list"
  copier_Copy :: "string \<Rightarrow> filesystem \<Rightarrow> string \<Rightarrow> string \<Rightarrow> go_error option \<times> filesystem"
  removeall_fault :: "(go_error \<times> (fpath \<Rightarrow> bool)) option"

text \<open>
  The state a run changes: the file system, the URLs requested over the network, and
  the steps of \<open>main\<close> that have returned, each with the error it returned.
\<close>

datatype step =
  CreateOutputDirectory | FetchLatestReleaseInfo | DownloadTheTarball | Extract
  | CopyContentsToOutput | ClearRemaining | SetLatestVersion

record world =
  files :: filesystem
  requests :: "string list"
  calls :: "(step \<times> go_error option) list"

definition returned :: "step \<Rightarrow> go_error option \<Rightarrow> world \<Rightarrow> world" where
  "returned s r w = w\<lparr>calls := calls w @ [(s, r)]\<rparr>"

section \<open>Extraction (Untar)\<close>

text \<open>
  \<open>Untar(dst, r)\<close>, from the revision of the program that defines it (lines
  198-261 there); \<open>main.go\<close> calls it as \<open>untar\<close>. The reader \<open>r\<close> is the bytes of the opened file, or the error that
  reading it gives. The loop takes the results of \<open>tr.Next()\<close> in order; running out
  of them is \<open>io.EOF\<close>. The target of an entry is \<open>filepath.Join(dst, header.Name)\<close>;
  nothing compares it with \<open>dst\<close>. An entry that is neither a directory nor a regular
  file is passed over.
\<close>

fun Untar_loop ::
  "string \<Rightarrow> string \<Rightarrow> tar_next list \<Rightarrow> filesystem \<Rightarrow> go_error option \<times> filesystem" where
  "Untar_loop wd dst [] fs = (None, fs)"
| "Untar_loop wd dst (NextErr err # rest) fs = (Some err, fs)"
| "Untar_loop wd dst (NextNil # rest) fs = Untar_loop wd dst rest fs"
| "Untar_loop wd dst (NextHeader header body read_err # rest) fs =
     (let target = filepath_Join [dst, Name header] in
      if Typeflag header = tar_TypeDir then
        (case os_Stat wd fs target of
           Inr info \<Rightarrow> Untar_loop wd dst rest fs
         | Inl err \<Rightarrow>
             (case os_MkdirAll wd fs target of
                (Some err, fs') \<Rightarrow> (Some err, fs')
              | (None, fs') \<Rightarrow> Untar_loop wd dst rest fs'))
      else if Typeflag header = tar_TypeReg then
        (case os_OpenFile wd fs target of
           Inl err \<Rightarrow> (Some err, fs)
         | Inr (f, fs') \<Rightarrow>
             (case io_Copy fs' f body read_err of
                (Some err, fs'') \<Rightarrow> (Some err, fs'')
              | (None, fs'') \<Rightarrow> Untar_loop wd dst rest fs''))
      else Untar_loop wd dst rest fs)"

definition Untar ::
  "env \<Rightarrow> string \<Rightarrow> go_error + string \<Rightarrow> filesystem \<Rightarrow> go_error option \<times> filesystem" where
  "Untar e dst r fs =
     (case r of
        Inl err \<Rightarrow> (Some err, fs)
      | Inr bytes \<Rightarrow>
          (case gzip_tar e bytes of
             Inl err \<Rightarrow> (Some err, fs)
           | Inr nexts \<Rightarrow> Untar_loop (cwd e) dst nexts fs))"

section \<open>The steps of main.go\<close>

definition SwaggerReleasesURL :: string where
  "SwaggerReleasesURL = ''https://api.github.com/repos/swagger-api/swagger-ui/releases/latest''"

definition SavingFileName :: string where
  "SavingFileName = ''.sud''"

definition TempTarFilename :: string where
  "TempTarFilename = ''temp.tar.gz''"

definition TempExtractionDirectory :: string where
  "TempExtractionDirectory = ''extracted''"

text \<open>
  \<open>parseArgs\<close> (lines 296-307): \<open>log.Fatalf\<close> when docopt fails, else the value of
  \<open>--out\<close>, replaced by \<open>"./"\<close> when it is empty.
\<close>

definition parseArgs :: "env \<Rightarrow> go_error + string" where
  "parseArgs e =
     (case docopt_out e of
        Inl err \<Rightarrow> Inl err
      | Inr out \<Rightarrow> Inr (if length out = 0 then ''./'' else out))"

definition getAbsoluteOutputPath :: "env \<Rightarrow> string \<Rightarrow> string \<times> go_error option" where
  "getAbsoluteOutputPath e relativeOutputPath =
     (case getwd_err e of
        Some err \<Rightarrow> ([], Some err)
      | None \<Rightarrow> (path_Join [cwd e, relativeOutputPath], None))"

definition outputDirectoryExists :: "env \<Rightarrow> filesystem \<Rightarrow> string \<Rightarrow> bool" where
  "outputDirectoryExists e fs outPath =
     (case os_Stat (cwd e) fs outPath of
        Inl err \<Rightarrow> \<not> os_IsNotExist err
      | Inr info \<Rightarrow> True)"

definition doesVersionFileExists :: "env \<Rightarrow> filesystem \<Rightarrow> string \<Rightarrow> bool" where
  "doesVersionFileExists e fs outPath =
     (case os_Stat (cwd e) fs (path_Join [outPath, SavingFileName]) of
        Inl err \<Rightarrow> \<not> os_IsNotExist err
      | Inr info \<Rightarrow> True)"

definition getVersionFileData :: "env \<Rightarrow> filesystem \<Rightarrow> string \<Rightarrow> go_error + string" where
  "getVersionFileData e fs filePath =
     ioutil_ReadFile (cwd e) fs (path_Join [filePath, SavingFileName])"

definition isVersionFileValid :: "env \<Rightarrow> string \<Rightarrow> bool \<times> VersionFile" where
  "isVersionFileValid e fileData =
     (case yaml_Unmarshal e fileData of
        Inl err \<Rightarrow> (False, \<lparr>Version = []\<rparr>)
      | Inr vFile \<Rightarrow> (True, vFile))"

definition doesVersionFileContainVersionKey :: "VersionFile \<Rightarrow> bool \<times> string" where
  "doesVersionFileContainVersionKey vFile =
     (if length (Version vFile) > 0 then (True, Version vFile) else (False, []))"

definition fetchLatestReleaseInfo ::
  "env \<Rightarrow> string \<Rightarrow> world \<Rightarrow> (go_error + GithubResponse) \<times> world" where
  "fetchLatestReleaseInfo e url w =
     (let w' = w\<lparr>requests := requests w @ [url]\<rparr> in
      case http_get e url of
        Inl err \<Rightarrow> (Inl err, w')
      | Inr res \<Rightarrow> (json_Unmarshal e res, w'))"

definition downloadTheTarball :: "env \<Rightarrow> string \<Rightarrow> world \<Rightarrow> go_error option \<times> world" where
  "downloadTheTarball e url w =
     (let w' = w\<lparr>requests := requests w @ [url]\<rparr> in
      case http_get e url of
        Inl err \<Rightarrow> (Some err, w')
      | Inr body \<Rightarrow>
          (case ioutil_WriteFile (cwd e) (files w') TempTarFilename body of
             (err, fs) \<Rightarrow> (err, w'\<lparr>files := fs\<rparr>)))"

text \<open>
  \<open>extract\<close> (lines 144-154), named \<open>extract_tarball\<close> here since \<open>extract\<close> is
  a command of Isabelle.
\<close>

definition extract_tarball :: "env \<Rightarrow> world \<Rightarrow> go_error option \<times> world" where
  "extract_tarball e w =
     (case os_Open (cwd e) (files w) TempTarFilename of
        Inl err \<Rightarrow> (Some err, w)
      | Inr file \<Rightarrow>
          (case Untar e (path_Join [''.'', TempExtractionDirectory]) file (files w) of
             (err, fs) \<Rightarrow> (err, w\<lparr>files := fs\<rparr>)))"

text \<open>
  \<open>copyContentsToOutput\<close> (lines 156-164) drops the error of \<open>ioutil.ReadDir\<close>, so
  \<open>subdirs\<close> is empty when the directory cannot be read, and indexes \<open>subdirs[0]\<close>
  unchecked.
\<close>

definition copyContentsToOutput ::
  "env \<Rightarrow> string \<Rightarrow> string \<Rightarrow> world \<Rightarrow> panic + (go_error option \<times> world)" where
  "copyContentsToOutput e src outPath w =
     (let subdirs = (case ioutil_ReadDir (cwd e) (files w) (src @ ''/'') of
                       Inl err \<Rightarrow> []
                     | Inr names \<Rightarrow> names)
      in if length subdirs \<le> 0 then Inl (IndexOutOfRange 0 (length subdirs))
         else (case copier_Copy e (cwd e) (files w)
                      (path_Join [src, subdirs ! 0, ''/dist'']) outPath of
                 (err, fs) \<Rightarrow> Inr (err, w\<lparr>files := fs\<rparr>)))"

text \<open>
  \<open>clearRemaining\<close> (lines 166-173) overwrites the error of \<open>os.RemoveAll\<close> with
  that of \<open>os.Remove\<close>.
\<close>

definition clearRemaining :: "env \<Rightarrow> world \<Rightarrow> go_error option \<times> world" where
  "clearRemaining e w =
     (case os_RemoveAll (removeall_fault e) (cwd e) (files w)
             (''./'' @ TempExtractionDirectory @ []) of
        (err, fs) \<Rightarrow>
          (case os_Remove (cwd e) fs TempTarFilename of
             (err, fs') \<Rightarrow> (err, w\<lparr>files := fs'\<rparr>)))"

definition setLatestVersion :: "env \<Rightarrow> string \<Rightarrow> string \<Rightarrow> world \<Rightarrow> go_error option \<times> world" where
  "setLatestVersion e outPath version w =
     (case yaml_Marshal e \<lparr>Version = version\<rparr> of
        Inl err \<Rightarrow> (Some err, w)
      | Inr out \<Rightarrow>
          (case ioutil_WriteFile (cwd e) (files w) (path_Join [outPath, SavingFileName]) out of
             (err, fs) \<Rightarrow> (err, w\<lparr>files := fs\<rparr>)))"

definition createOutputDirectory :: "env \<Rightarrow> string \<Rightarrow> world \<Rightarrow> go_error option \<times> world" where
  "createOutputDirectory e outPath w =
     (case os_MkdirAll (cwd e) (files w) outPath of
        (err, fs) \<Rightarrow> (err, w\<lparr>files := fs\<rparr>))"

section \<open>main\<close>

text \<open>
  How a run ends: \<open>main\<close> returns (exit status 0), \<open>os.Exit\<close> with a status,
  \<open>logErrorFatal\<close> or \<open>log.Fatalf\<close> with a message (both exit with status 1), or a
  panic (the Go runtime exits with status 2). What the program prints is not modelled
  beyond the message of a fatal error.
\<close>

datatype outcome = Returned | Exit nat | Fatal string | Panicked panic

fun exit_status :: "outcome \<Rightarrow> nat" where
  "exit_status Returned = 0"
| "exit_status (Exit n) = n"
| "exit_status (Fatal msg) = 1"
| "exit_status (Panicked p) = 2"

text \<open>
  Lines 205-233 of \<open>main\<close>: the stored version replaces the initial
  \<open>previousVersionParts\<close> only when the marker file is there, is read, is parsed,
  has a version and the version is valid.
\<close>

definition main_previous :: "env \<Rightarrow> filesystem \<Rightarrow> string \<Rightarrow> string list \<Rightarrow> string list" where
  "main_previous e fs outputPath previousVersionParts =
     (if doesVersionFileExists e fs outputPath then
        (case getVersionFileData e fs outputPath of
           Inr versionFileData \<Rightarrow>
             (case isVersionFileValid e versionFileData of
                (True, vFile) \<Rightarrow>
                  (case doesVersionFileContainVersionKey vFile of
                     (True, version) \<Rightarrow>
                       (let version = sanitizeVersion version in
                        if isVersionValueValid version then splitSemver version
                        else previousVersionParts)
                   | (False, version) \<Rightarrow> previousVersionParts)
              | (False, vFile) \<Rightarrow> previousVersionParts)
         | Inl err \<Rightarrow> previousVersionParts)
      else previousVersionParts)"

text \<open>Lines 263-293 of \<open>main\<close>: download, extract, copy, clean up, save the version.\<close>

definition main_install :: "env \<Rightarrow> string \<Rightarrow> GithubResponse \<Rightarrow> world \<Rightarrow> outcome \<times> world" where
  "main_install e outputPath response w =
     (case downloadTheTarball e (TarballURL response) w of
        (Some err, w) \<Rightarrow>
          (Fatal ''error downloading latest release.'', returned DownloadTheTarball (Some err) w)
      | (None, w) \<Rightarrow>
     (case extract_tarball e (returned DownloadTheTarball None w) of
        (Some err, w) \<Rightarrow>
          (Fatal ''error extracting tar file.'', returned Extract (Some err) w)
      | (None, w) \<Rightarrow>
     (case copyContentsToOutput e (path_Join [''.'', TempExtractionDirectory]) outputPath
             (returned Extract None w) of
        Inl p \<Rightarrow> (Panicked p, returned Extract None w)
      | Inr (Some err, w) \<Rightarrow>
          (Fatal ''error copying files.'', returned CopyContentsToOutput (Some err) w)
      | Inr (None, w) \<Rightarrow>
     (case clearRemaining e (returned CopyContentsToOutput None w) of
        (Some err, w) \<Rightarrow>
          (Fatal ''error removing unnecessary files.'', returned ClearRemaining (Some err) w)
      | (None, w) \<Rightarrow>
     (case setLatestVersion e outputPath (TagName response) (returned ClearRemaining None w) of
        (Some err, w) \<Rightarrow>
          (Fatal ''error saving latest release version.'', returned SetLatestVersion (Some err) w)
      | (None, w) \<Rightarrow> (Returned, returned SetLatestVersion None w))))))"

text \<open>
  Lines 244-261 of \<open>main\<close>: fetch the release information, strip the tag, split it
  and compare; \<open>os.Exit(0)\<close> when \<open>existsNewerVersion\<close> is false.
\<close>

definition main_update :: "env \<Rightarrow> string \<Rightarrow> string list \<Rightarrow> world \<Rightarrow> outcome \<times> world" where
  "main_update e outputPath previousVersionParts w =
     (case fetchLatestReleaseInfo e SwaggerReleasesURL w of
        (Inl err, w) \<Rightarrow>
          (Fatal ''failed to fetch latest Swagger UI release information.'',
           returned FetchLatestReleaseInfo (Some err) w)
      | (Inr response, w) \<Rightarrow>
          (let w = returned FetchLatestReleaseInfo None w;
               response = response\<lparr>TagName := sanitizeVersion (TagName response)\<rparr>;
               latestReleaseVersionParts = splitSemver (TagName response)
           in case existsNewerVersion previousVersionParts latestReleaseVersionParts of
                Inl p \<Rightarrow> (Panicked p, w)
              | Inr newer \<Rightarrow>
                  if \<not> newer then (Exit 0, w)
                  else main_install e outputPath response w))"

text \<open>
  \<open>main\<close> (lines 196-294), from a file system. The error of
  \<open>getAbsoluteOutputPath\<close> is never looked at.
\<close>

definition main :: "env \<Rightarrow> filesystem \<Rightarrow> outcome \<times> world" where
  "main e fs =
     (let previousVersionParts = [''0'', ''0'', ''0''];
          w = \<lparr>files = fs, requests = [], calls = []\<rparr>
      in case parseArgs e of
           Inl err \<Rightarrow> (Fatal ''error occurred in parsing arguments'', w)
         | Inr out \<Rightarrow>
             (case getAbsoluteOutputPath e out of
                (outputPath, err) \<Rightarrow>
                  if outputDirectoryExists e (files w) outputPath then
                    main_update e outputPath
                      (main_previous e (files w) outputPath previousVersionParts) w
                  else
                    (case createOutputDirectory e outputPath w of
                       (Some err, w) \<Rightarrow>
                         (Fatal ''unable to create output directory.'',
                          returned CreateOutputDirectory (Some err) w)
                     | (None, w) \<Rightarrow>
                         main_update e outputPath previousVersionParts
                           (returned CreateOutputDirectory None w))))"

section \<open>Stand-ins for the libraries, for running the program on examples\<close>

text \<open>
  The theorems about every run leave the libraries open. The examples need answers:
  \<open>copy_tree\<close> copies every node at or below \<open>src\<close> to the same place below
  \<open>dest\<close>, creating \<open>dest\<close> and its missing parents; the YAML stand-in reads and
  writes the one line \<open>version: ...\<close>; the network serves one release description and
  one archive.
\<close>

definition copy_tree ::
  "string \<Rightarrow> filesystem \<Rightarrow> string \<Rightarrow> string \<Rightarrow> go_error option \<times> filesystem" where
  "copy_tree wd fs src dest =
     (case locate wd fs src of
        Inl err \<Rightarrow> (Some err, fs)
      | Inr s \<Rightarrow>
          (case locate wd fs dest of
             Inl err \<Rightarrow> (Some err, fs)
           | Inr d \<Rightarrow>
               (case fs_lookup fs s of
                  None \<Rightarrow> (Some ENOENT, fs)
                | Some (FileN b) \<Rightarrow>
                    (case writable fs d of
                       Some err \<Rightarrow> (Some err, fs)
                     | None \<Rightarrow> (None, (d, FileN b) # fs))
                | Some DirN \<Rightarrow>
                    if is_file fs d then (Some ENOTDIR, fs)
                    else (None,
                          map (\<lambda>(q, n). (d @ drop (length s) q, n))
                            (filter (\<lambda>(q, n). strict_prefix s q) fs)
                          @ mkdir_missing fs d))))"

definition newline :: char where
  "newline = CHR 0x0A"

definition demo_yaml_Unmarshal :: "string \<Rightarrow> go_error + VersionFile" where
  "demo_yaml_Unmarshal s =
     (if take 9 s = ''version: '' then Inr \<lparr>Version = takeWhile (\<lambda>c. c \<noteq> newline) (drop 9 s)\<rparr>
      else Inl (Err ''yaml: unmarshal error''))"

definition demo_yaml_Marshal :: "VersionFile \<Rightarrow> go_error + string" where
  "demo_yaml_Marshal v = Inr (''version: '' @ Version v @ [newline])"

definition demo_env :: "string \<Rightarrow> string \<Rightarrow> go_error + tar_next list \<Rightarrow> env" where
  "demo_env out tag archive =
     \<lparr>docopt_out = Inr out,
      cwd = ''/work'',
      getwd_err = None,
      http_get = (\<lambda>url. if url = SwaggerReleasesURL then Inr ''release''
                        else if url = ''https://tarball'' then Inr ''archive''
                        else Inl (Err ''no such host'')),
      json_Unmarshal = (\<lambda>s. if s = ''release''
                        then Inr \<lparr>URL = SwaggerReleasesURL, TagName = tag,
                                  TarballURL = ''https://tarball''\<rparr>
                        else Inl (Err ''invalid character'')),
      yaml_Unmarshal = demo_yaml_Unmarshal,
      yaml_Marshal = demo_yaml_Marshal,
      gzip_tar = (\<lambda>bytes. if bytes = ''archive'' then archive
                        else Inl (Err ''gzip: invalid header'')),
      copier_Copy = copy_tree,
      removeall_fault = None\<rparr>"

definition dir_entry :: "string \<Rightarrow> tar_next" where
  "dir_entry name = NextHeader \<lparr>Name = name, Typeflag = tar_TypeDir, Mode = 493\<rparr> [] None"

definition file_entry :: "string \<Rightarrow> string \<Rightarrow> tar_next" where
  "file_entry name body = NextHeader \<lparr>Name = name, Typeflag = tar_TypeReg, Mode = 420\<rparr> body None"

text \<open>An archive as the releases have it: one top directory with \<open>dist\<close> in it.\<close>

definition release_archive :: "tar_next list" where
  "release_archive =
     [dir_entry ''swagger-ui-1/'', dir_entry ''swagger-ui-1/dist/'',
      file_entry ''swagger-ui-1/dist/index.html'' ''<html>'']"

text \<open>
  The file systems of the examples: the working directory \<open>/work\<close> alone, and with a
  marker file that records a version.
\<close>

definition work_dir :: filesystem where
  "work_dir = [([''work''], DirN)]"

definition work_dir_with_marker :: "string \<Rightarrow> filesystem" where
  "work_dir_with_marker v = ([''work'', ''.sud''], FileN (''version: '' @ v @ [newline])) # work_dir"

text \<open>
  A path string whose last element is the marker's name: \<open>".sud"\<close> itself or
  anything ending in \<open>"/.sud"\<close>.
\<close>

definition ends_sud :: "string \<Rightarrow> bool" where
  "ends_sud m = (m = ''.sud'' \<or> suffix ''/.sud'' m)"

text \<open>
  An extraction directory with two entries at its top, \<open>a\<close> (with \<open>dist\<close>) and
  \<open>b\<close>.
\<close>

definition staged_two :: filesystem where
  "staged_two =
     [([''work'', ''extracted'', ''b''], DirN),
      ([''work'', ''extracted'', ''a'', ''dist'', ''index.html''], FileN ''<html>''),
      ([''work'', ''extracted'', ''a'', ''dist''], DirN),
      ([''work'', ''extracted'', ''a''], DirN),
      ([''work'', ''extracted''], DirN),
      ([''work''], DirN)]"

section \<open>The version rules as the specification words them\<close>

text \<open>
  The specification's \<open>parse\<close>: strip one leading character when it is not numeric,
  split on \<open>"."\<close>, and accept when every piece parses as a non-negative integer.
  These two definitions follow the specification's words, not the code; they are only
  compared with \<open>sanitizeVersion\<close> and \<open>isVersionValueValid\<close>.
\<close>

definition spec_strip_prefix :: "string \<Rightarrow> string" where
  "spec_strip_prefix raw =
     (case raw of [] \<Rightarrow> [] | c # cs \<Rightarrow> if is_digit c then raw else cs)"

definition spec_parse_valid :: "string \<Rightarrow> bool" where
  "spec_parse_valid raw =
     list_all (\<lambda>part. case strconv_Atoi part of Inl err \<Rightarrow> False | Inr n \<Rightarrow> 0 \<le> n)
       (strings_Split (spec_strip_prefix raw) (CHR ''.''))"

text \<open>
  The specification's \<open>compare\<close>: component by component from the left, deciding at
  the first component that differs, on the components' text. \<open>spec_isNewer\<close> is the
  specification's \<open>isNewer\<close>, true when \<open>compare\<close> gives \<open>LESS\<close>.
\<close>

datatype ordering = LESS | EQUAL | GREATER

fun spec_compare :: "string list \<Rightarrow> string list \<Rightarrow> ordering" where
  "spec_compare (a # as) (b # bs) =
     (if a < b then LESS else if b < a then GREATER else spec_compare as bs)"
| "spec_compare as bs = EQUAL"

definition spec_isNewer :: "string list \<Rightarrow> string list \<Rightarrow> bool" where
  "spec_isNewer current candidate = (spec_compare current candidate = LESS)"

section \<open>Properties of the version code\<close>

lemma strings_Index_ge: "- 1 \<le> strings_Index s x"
  by (induction s) (auto simp: Let_def)

lemma strings_Index_zero: "strings_Index s x = 0 \<longleftrightarrow> (s \<noteq> [] \<and> hd s = x)"
proof (cases s)
  case Nil
  then show ?thesis by simp
next
  case (Cons c cs)
  have "- 1 \<le> strings_Index cs x" by (rule strings_Index_ge)
  with Cons show ?thesis by (auto simp: Let_def)
qed

lemma sanitizeVersion_eq:
  "sanitizeVersion v = (if v \<noteq> [] \<and> hd v = CHR ''v'' then tl v else v)"
  unfolding sanitizeVersion_def strings_Index_zero by (cases v) simp_all

lemma isVersionValueValid_loop_all:
  "isVersionValueValid_loop parts \<longleftrightarrow>
     (\<forall>part \<in> set parts. \<exists>n. strconv_Atoi part = Inr n \<and> 0 \<le> n)"
  by (induction parts) (auto split: sum.splits)

text \<open>
  The loop of \<open>existsNewerVersion\<close> from index \<open>k\<close> on: true at the first index
  where the remote component is greater, a panic when the indices of \<open>previous\<close> run
  out before that, false otherwise.
\<close>

lemma existsNewerVersion_loop_upt:
  "k \<le> length previous \<Longrightarrow>
   existsNewerVersion_loop previous current [k..<n] =
     (if \<exists>i. k \<le> i \<and> i < n \<and> i < length previous \<and> current ! i > previous ! i then Inr True
      else if length previous < n then Inl (IndexOutOfRange (length previous) (length previous))
      else Inr False)"
proof (induction "n - k" arbitrary: k)
  case 0
  then show ?case by auto
next
  case (Suc d)
  then have kn: "k < n" by simp
  then have upt: "[k..<n] = k # [Suc k..<n]" by (simp add: upt_conv_Cons)
  show ?case
  proof (cases "length previous \<le> k")
    case True
    with Suc.prems have "k = length previous" by simp
    with kn upt show ?thesis by auto
  next
    case False
    then have le: "Suc k \<le> length previous" by simp
    have d: "d = n - Suc k" using Suc.hyps(2) by simp
    note IH = Suc.hyps(1)[OF d le]
    show ?thesis
    proof (cases "current ! k > previous ! k")
      case True
      with False kn have "\<exists>i. k \<le> i \<and> i < n \<and> i < length previous \<and> current ! i > previous ! i"
        by (intro exI [of _ k]) simp
      with False True upt show ?thesis by simp
    next
      case nk: False
      have "(\<exists>i. k \<le> i \<and> i < n \<and> i < length previous \<and> current ! i > previous ! i)
          = (\<exists>i. Suc k \<le> i \<and> i < n \<and> i < length previous \<and> current ! i > previous ! i)"
        using nk by (metis Suc_leI le_eq_less_or_eq Suc_leD)
      with False nk upt IH show ?thesis by simp
    qed
  qed
qed

lemma existsNewerVersion_cases:
  "existsNewerVersion previous current =
     (if \<exists>i. i < length current \<and> i < length previous \<and> current ! i > previous ! i then Inr True
      else if length previous < length current
        then Inl (IndexOutOfRange (length previous) (length previous))
      else Inr False)"
  unfolding existsNewerVersion_def
  using existsNewerVersion_loop_upt [of 0 previous current "length current"] by simp

text \<open>
  C9, as the code has it: version parsing strips one leading \<open>"v"\<close> and no other
  character, splits the rest on \<open>"."\<close>, and accepts the version exactly when every
  piece is read by \<open>strconv.Atoi\<close> as an integer that is not negative. Nothing
  constrains the number of pieces.
\<close>

theorem isVersionValueValid_sanitized_iff:
  "isVersionValueValid (sanitizeVersion raw) \<longleftrightarrow>
     (\<forall>part \<in> set (strings_Split (if raw \<noteq> [] \<and> hd raw = CHR ''v'' then tl raw else raw)
                         (CHR ''.'')).
        \<exists>n. strconv_Atoi part = Inr n \<and> 0 \<le> n)"
  unfolding isVersionValueValid_def isVersionValueValid_loop_all sanitizeVersion_eq ..

text \<open>
  C9, witness: \<open>"v1.2.3.4"\<close> has its \<open>"v"\<close> stripped and is accepted with four
  pieces, each read by \<open>Atoi\<close>.
\<close>

theorem isVersionValueValid_sanitized_iff_witness:
  "isVersionValueValid (sanitizeVersion ''v1.2.3.4'') \<and>
   strings_Split (tl ''v1.2.3.4'') (CHR ''.'') = [''1'', ''2'', ''3'', ''4''] \<and>
   map strconv_Atoi [''1'', ''2'', ''3'', ''4''] = [Inr 1, Inr 2, Inr 3, Inr 4]"
  using isVersionValueValid_sanitized_iff [of "''v1.2.3.4''"]
  by (simp add: strconv_Atoi_def is_digit_def digit_val_def)

text \<open>
  C9, counterexample to the claim as stated: \<open>"V1.2.3"\<close> starts with a character
  that is not numeric; the specification's parse strips it and accepts \<open>1.2.3\<close>,
  the code strips nothing and rejects the piece \<open>"V1"\<close>.
\<close>

theorem sanitizeVersion_strips_only_v_counterexample:
  "spec_parse_valid ''V1.2.3'' \<and>
   sanitizeVersion ''V1.2.3'' = ''V1.2.3'' \<and>
   \<not> isVersionValueValid (sanitizeVersion ''V1.2.3'')"
  by (simp add: spec_parse_valid_def spec_strip_prefix_def sanitizeVersion_def
      isVersionValueValid_def strconv_Atoi_def is_digit_def digit_val_def)

text \<open>
  C10, as the code has it: \<open>existsNewerVersion\<close> aborts with an index-out-of-range
  panic exactly when the remote version has more components than the baseline and no
  component at an index they share is greater in the remote version; in every other
  case it returns a boolean.
\<close>

theorem existsNewerVersion_panics_iff:
  "(\<exists>p. existsNewerVersion previous current = Inl p) \<longleftrightarrow>
     (length previous < length current \<and>
      (\<forall>i < length previous. \<not> previous ! i < current ! i))"
  unfolding existsNewerVersion_cases by auto

text \<open>
  C10, witness: remote \<open>0.0.0.1\<close> against the baseline \<open>0.0.0\<close> panics at index 3.
  The baseline has three components only as long as it is the initial one: a marker
  that records \<open>1.2\<close> gives a baseline of two, and the remote \<open>1.2.0\<close> then ends
  the run with a panic at index 2.
\<close>

theorem existsNewerVersion_panics_iff_witness:
  "length [''0'', ''0'', ''0''] < length [''0'', ''0'', ''0'', ''1''] \<and>
   existsNewerVersion [''0'', ''0'', ''0''] [''0'', ''0'', ''0'', ''1'']
     = Inl (IndexOutOfRange 3 3) \<and>
   main_previous (demo_env ''.'' ''v1.2.0'' (Inr release_archive)) (work_dir_with_marker ''1.2'')
     ''/work'' [''0'', ''0'', ''0''] = [''1'', ''2''] \<and>
   fst (main (demo_env ''.'' ''v1.2.0'' (Inr release_archive)) (work_dir_with_marker ''1.2''))
     = Panicked (IndexOutOfRange 2 2)"
proof -
  have "\<exists>p. existsNewerVersion [''0'', ''0'', ''0''] [''0'', ''0'', ''0'', ''1''] = Inl p"
    using existsNewerVersion_panics_iff [of "[''0'', ''0'', ''0'']" "[''0'', ''0'', ''0'', ''1'']"]
    by (simp add: less_Suc_eq)
  then have "existsNewerVersion [''0'', ''0'', ''0''] [''0'', ''0'', ''0'', ''1'']
               = Inl (IndexOutOfRange 3 3)"
    by (simp add: existsNewerVersion_def upt_rec)
  moreover have
    "main_previous (demo_env ''.'' ''v1.2.0'' (Inr release_archive)) (work_dir_with_marker ''1.2'')
       ''/work'' [''0'', ''0'', ''0''] = [''1'', ''2'']"
    by code_simp
  moreover have
    "fst (main (demo_env ''.'' ''v1.2.0'' (Inr release_archive)) (work_dir_with_marker ''1.2''))
       = Panicked (IndexOutOfRange 2 2)"
    by code_simp
  ultimately show ?thesis by simp
qed

text \<open>
  C10, counterexample to the claim as stated: the claim's own example, remote
  \<open>1.2.3.4\<close> against the baseline \<open>0.0.0\<close>, has more components than the baseline
  and yet returns true at index 0 without a panic.
\<close>

theorem existsNewerVersion_longer_remote_counterexample:
  "length [''0'', ''0'', ''0''] < length [''1'', ''2'', ''3'', ''4''] \<and>
   existsNewerVersion [''0'', ''0'', ''0''] [''1'', ''2'', ''3'', ''4''] = Inr True"
  by (simp add: existsNewerVersion_def upt_rec)

section \<open>Properties of main\<close>

text \<open>Recording that a step has returned changes neither the files nor the requests.\<close>

lemma returned_simps [simp]:
  "files (returned s r w) = files w"
  "requests (returned s r w) = requests w"
  "calls (returned s r w) = calls w @ [(s, r)]"
  by (simp_all add: returned_def)

text \<open>
  C8, as the code has it: when the release information is fetched and
  \<open>existsNewerVersion\<close> is false, the run ends with \<open>os.Exit(0)\<close>, the only request
  made is the one for the release information (no archive is downloaded), and the
  file system is the one the run started from, except that an output directory that
  did not exist has been created by then.
\<close>

theorem main_up_to_date_effects:
  assumes "parseArgs e = Inr out_arg"
    and "getAbsoluteOutputPath e out_arg = (outputPath, perr)"
    and "outputDirectoryExists e fs outputPath \<or> fst (os_MkdirAll (cwd e) fs outputPath) = None"
    and "http_get e SwaggerReleasesURL = Inr res"
    and "json_Unmarshal e res = Inr response"
    and "existsNewerVersion
           (if outputDirectoryExists e fs outputPath
            then main_previous e fs outputPath [''0'', ''0'', ''0''] else [''0'', ''0'', ''0''])
           (splitSemver (sanitizeVersion (TagName response))) = Inr False"
  shows "fst (main e fs) = Exit 0 \<and>
         requests (snd (main e fs)) = [SwaggerReleasesURL] \<and>
         files (snd (main e fs)) =
           (if outputDirectoryExists e fs outputPath then fs
            else snd (os_MkdirAll (cwd e) fs outputPath))"
proof (cases "outputDirectoryExists e fs outputPath")
  case True
  with assms(1,2,4,5,6) show ?thesis
    by (simp add: main_def main_update_def fetchLatestReleaseInfo_def Let_def)
next
  case False
  with assms(3) obtain fs1 where mk: "os_MkdirAll (cwd e) fs outputPath = (None, fs1)"
    by (cases "os_MkdirAll (cwd e) fs outputPath") auto
  with False assms(1,2,4,5,6) show ?thesis
    by (simp add: main_def main_update_def fetchLatestReleaseInfo_def createOutputDirectory_def
        Let_def)
qed

text \<open>
  C8, witness: the marker records \<open>1.2.3\<close> and the remote tag is \<open>v1.2.3\<close>; the run
  exits with status 0 after one request and leaves the file system as it was.
\<close>

theorem main_up_to_date_effects_witness:
  "outputDirectoryExists (demo_env ''.'' ''v1.2.3'' (Inr release_archive))
     (work_dir_with_marker ''1.2.3'') ''/work'' \<and>
   fst (main (demo_env ''.'' ''v1.2.3'' (Inr release_archive)) (work_dir_with_marker ''1.2.3''))
     = Exit 0 \<and>
   requests (snd (main (demo_env ''.'' ''v1.2.3'' (Inr release_archive))
     (work_dir_with_marker ''1.2.3''))) = [SwaggerReleasesURL] \<and>
   files (snd (main (demo_env ''.'' ''v1.2.3'' (Inr release_archive))
     (work_dir_with_marker ''1.2.3''))) = work_dir_with_marker ''1.2.3''"
proof -
  let ?e = "demo_env ''.'' ''v1.2.3'' (Inr release_archive)"
  let ?fs = "work_dir_with_marker ''1.2.3''"
  let ?r = "\<lparr>URL = SwaggerReleasesURL, TagName = ''v1.2.3'', TarballURL = ''https://tarball''\<rparr>"
  have a: "parseArgs ?e = Inr ''.''" by code_simp
  have b: "getAbsoluteOutputPath ?e ''.'' = (''/work'', None)" by code_simp
  have c: "outputDirectoryExists ?e ?fs ''/work''" by code_simp
  then have c': "outputDirectoryExists ?e ?fs ''/work''
                 \<or> fst (os_MkdirAll (cwd ?e) ?fs ''/work'') = None" ..
  have d: "http_get ?e SwaggerReleasesURL = Inr ''release''" by code_simp
  have f: "json_Unmarshal ?e ''release'' = Inr ?r" by code_simp
  have g: "existsNewerVersion
             (if outputDirectoryExists ?e ?fs ''/work''
              then main_previous ?e ?fs ''/work'' [''0'', ''0'', ''0''] else [''0'', ''0'', ''0''])
             (splitSemver (sanitizeVersion (TagName ?r))) = Inr False" by code_simp
  from main_up_to_date_effects [OF a b c' d f g] c show ?thesis by simp
qed

text \<open>
  C1, the code at the claim's own scenario: the marker records \<open>2.0.0\<close> and the
  remote tag is \<open>v1.9.9\<close>. The specification's comparison gives \<open>GREATER\<close>, so its
  \<open>isNewer\<close> is false; \<open>existsNewerVersion\<close> returns true, because the second
  component \<open>"9"\<close> is greater than \<open>"0"\<close>, and the run downloads the archive,
  installs it and records \<open>1.9.9\<close>.
\<close>

theorem existsNewerVersion_older_remote_is_newer:
  "spec_compare [''2'', ''0'', ''0''] [''1'', ''9'', ''9''] = GREATER \<and>
   spec_isNewer [''2'', ''0'', ''0''] [''1'', ''9'', ''9''] = False \<and>
   existsNewerVersion [''2'', ''0'', ''0''] [''1'', ''9'', ''9''] = Inr True \<and>
   main_previous (demo_env ''.'' ''v1.9.9'' (Inr release_archive)) (work_dir_with_marker ''2.0.0'')
     ''/work'' [''0'', ''0'', ''0''] = [''2'', ''0'', ''0''] \<and>
   fst (main (demo_env ''.'' ''v1.9.9'' (Inr release_archive)) (work_dir_with_marker ''2.0.0''))
     = Returned \<and>
   requests (snd (main (demo_env ''.'' ''v1.9.9'' (Inr release_archive))
     (work_dir_with_marker ''2.0.0''))) = [SwaggerReleasesURL, ''https://tarball''] \<and>
   fs_lookup (files (snd (main (demo_env ''.'' ''v1.9.9'' (Inr release_archive))
     (work_dir_with_marker ''2.0.0'')))) [''work'', ''.sud'']
     = Some (FileN (''version: 1.9.9'' @ [newline]))"
  by code_simp

text \<open>
  C4, the code at a remote tag that is not a version: \<open>vfoo\<close> is stripped to
  \<open>foo\<close>, which \<open>isVersionValueValid\<close> rejects; \<open>main\<close> never asks, compares
  \<open>"foo"\<close> with \<open>"0"\<close> as strings, downloads and installs the archive and records
  the version \<open>foo\<close>.
\<close>

theorem main_unparseable_remote_version_is_installed:
  "\<not> isVersionValueValid (sanitizeVersion ''vfoo'') \<and>
   fst (main (demo_env ''.'' ''vfoo'' (Inr release_archive)) work_dir) = Returned \<and>
   calls (snd (main (demo_env ''.'' ''vfoo'' (Inr release_archive)) work_dir))
     = [(FetchLatestReleaseInfo, None), (DownloadTheTarball, None), (Extract, None),
        (CopyContentsToOutput, None), (ClearRemaining, None), (SetLatestVersion, None)] \<and>
   requests (snd (main (demo_env ''.'' ''vfoo'' (Inr release_archive)) work_dir))
     = [SwaggerReleasesURL, ''https://tarball''] \<and>
   fs_lookup (files (snd (main (demo_env ''.'' ''vfoo'' (Inr release_archive)) work_dir)))
     [''work'', ''.sud''] = Some (FileN (''version: foo'' @ [newline]))"
  by code_simp

text \<open>
  C8, counterexample to the claim as stated: the output directory \<open>/work/out\<close> does
  not exist and the remote version \<open>0.0.0\<close> is not newer than the baseline; the run
  exits with status 0 and has created the directory.
\<close>

theorem main_up_to_date_creates_directory_counterexample:
  "existsNewerVersion [''0'', ''0'', ''0''] (splitSemver (sanitizeVersion ''v0.0.0'')) = Inr False \<and>
   fst (main (demo_env ''out'' ''v0.0.0'' (Inr release_archive)) work_dir) = Exit 0 \<and>
   fs_lookup work_dir [''work'', ''out''] = None \<and>
   fs_lookup (files (snd (main (demo_env ''out'' ''v0.0.0'' (Inr release_archive)) work_dir)))
     [''work'', ''out''] = Some DirN"
  by code_simp

section \<open>Where the marker, the archive and the extraction directory are\<close>

text \<open>
  Whatever the output directory is, the path of the marker ends in the name
  \<open>.sud\<close>, so it is neither the path of the temporary archive nor that of the
  extraction directory, which both lie in the working directory.
\<close>

lemma strings_Split_ne: "strings_Split s c \<noteq> []"
  by (induction s) (auto split: list.splits)

lemma strings_Split_append:
  "strings_Split (a @ c # b) c = strings_Split a c @ strings_Split b c"
proof (induction a)
  case Nil
  then show ?case by simp
next
  case (Cons x a)
  then show ?case
    using strings_Split_ne [of a c] by (auto split: list.splits)
qed

lemma strings_Split_none: "c \<notin> set s \<Longrightarrow> strings_Split s c = [s]"
  by (induction s) auto

lemma clean_step_name:
  "c \<noteq> [] \<Longrightarrow> c \<noteq> ''.'' \<Longrightarrow> c \<noteq> ''..'' \<Longrightarrow> clean_step r out c = out @ [c]"
  by (simp add: clean_step_def)

lemma strings_Join_snoc:
  "strings_Join (xs @ [y]) sep = (if xs = [] then y else strings_Join xs sep @ sep @ y)"
  by (induction xs sep rule: strings_Join.induct) auto

lemma split_slash_sud:
  "strings_Split (t @ ''/.sud'') (CHR ''/'') = strings_Split t (CHR ''/'') @ [''.sud'']"
  using strings_Split_append [of t "CHR ''/''" "''.sud''"] by simp

lemma foldl_clean_slash_sud:
  "foldl (clean_step r) [] (strings_Split (t @ ''/.sud'') (CHR ''/''))
     = foldl (clean_step r) [] (strings_Split t (CHR ''/'')) @ [''.sud'']"
  by (simp add: split_slash_sud clean_step_name)

lemma path_Clean_slash_sud: "ends_sud (path_Clean (t @ ''/.sud''))"
proof (cases "hd (t @ ''/.sud'') = CHR ''/''")
  case True
  then have "path_Clean (t @ ''/.sud'') =
      CHR ''/'' # strings_Join (foldl (clean_step True) [] (strings_Split t (CHR ''/'')) @ [''.sud'']) ''/''"
    by (simp add: path_Clean_def Let_def foldl_clean_slash_sud)
  then show ?thesis
    unfolding strings_Join_snoc by (auto simp: ends_sud_def suffix_def)
next
  case False
  then have "path_Clean (t @ ''/.sud'') =
      strings_Join (foldl (clean_step False) [] (strings_Split t (CHR ''/'')) @ [''.sud'']) ''/''"
    by (simp add: path_Clean_def Let_def foldl_clean_slash_sud)
  then show ?thesis
    unfolding strings_Join_snoc by (auto simp: ends_sud_def suffix_def)
qed

lemma path_Join_sud: "ends_sud (path_Join [a, SavingFileName])"
proof (cases "a = []")
  case True
  have "path_Clean ''.sud'' = ''.sud''"
    by (simp add: path_Clean_def clean_step_def)
  with True show ?thesis by (simp add: SavingFileName_def ends_sud_def)
next
  case False
  then have "path_Join [a, SavingFileName] = path_Clean (a @ ''/.sud'')"
    by (simp add: SavingFileName_def)
  then show ?thesis by (simp add: path_Clean_slash_sud)
qed

lemma resolve_ends_sud:
  assumes "ends_sud m"
  shows "\<exists>Y. resolve wd m = Some (Y @ [''.sud''])"
proof -
  have "\<exists>u. (if hd m = CHR ''/'' then m else wd @ ''/'' @ m) = u @ ''/.sud''"
  proof (cases "m = ''.sud''")
    case True
    then show ?thesis by simp
  next
    case False
    with assms obtain t where "m = t @ ''/.sud''" by (auto simp: ends_sud_def suffix_def)
    then show ?thesis by auto
  qed
  then obtain u where u: "(if hd m = CHR ''/'' then m else wd @ ''/'' @ m) = u @ ''/.sud''" ..
  have ne: "m \<noteq> []" using assms by (auto simp: ends_sud_def suffix_def)
  have "resolve wd m = Some (foldl (clean_step True) [] (strings_Split (u @ ''/.sud'') (CHR ''/'')))"
    using ne u by (simp add: resolve_def)
  then show ?thesis
    by (simp add: split_slash_sud clean_step_name)
qed

lemma resolve_marker:
  "\<exists>Y. resolve wd (path_Join [a, SavingFileName]) = Some (Y @ [''.sud''])"
  by (rule resolve_ends_sud) (rule path_Join_sud)

lemma resolve_temp:
  "resolve wd TempTarFilename
     = Some (foldl (clean_step True) [] (strings_Split wd (CHR ''/'')) @ [''temp.tar.gz''])"
proof -
  have "strings_Split (wd @ ''/temp.tar.gz'') (CHR ''/'')
          = strings_Split wd (CHR ''/'') @ [''temp.tar.gz'']"
    using strings_Split_append [of wd "CHR ''/''" "''temp.tar.gz''"] by simp
  then show ?thesis
    by (simp add: resolve_def TempTarFilename_def clean_step_name)
qed


section \<open>Properties of the file system\<close>


lemma fs_lookup_Cons:
  "fs_lookup ((p, n) # fs) q = (if q = [] then Some DirN else if q = p then Some n else fs_lookup fs q)"
  by (simp add: fs_lookup_def)

lemma fs_lookup_root: "fs_lookup fs [] = Some DirN"
  by (simp add: fs_lookup_def)


lemma mkdir_missing_keeps:
  assumes "fs_lookup fs q \<noteq> None"
  shows "fs_lookup (mkdir_missing fs p) q = fs_lookup fs q"
proof (cases "q = []")
  case True
  then show ?thesis by (simp add: fs_lookup_def)
next
  case False
  let ?new = "map (\<lambda>n. (take n p, DirN))
                (filter (\<lambda>n. fs_lookup fs (take n p) = None) [1..<Suc (length p)])"
  have "q \<notin> fst ` set ?new" using assms by auto
  then have "map_of ?new q = None" by (simp add: map_of_eq_None_iff)
  then show ?thesis
    using False by (simp add: fs_lookup_def mkdir_missing_def map_add_def)
qed

lemma os_MkdirAll_keeps:
  "os_MkdirAll wd fs name = (r, fs') \<Longrightarrow> fs_lookup fs q \<noteq> None \<Longrightarrow>
   fs_lookup fs' q = fs_lookup fs q"
  by (auto simp: os_MkdirAll_def mkdir_missing_keeps split: sum.splits if_splits)

lemma ioutil_WriteFile_failed:
  "ioutil_WriteFile wd fs name d = (Some err, fs') \<Longrightarrow> fs' = fs"
  by (auto simp: ioutil_WriteFile_def split: sum.splits option.splits)

lemma ioutil_WriteFile_done:
  "ioutil_WriteFile wd fs name d = (None, fs') \<Longrightarrow>
   \<exists>p. resolve wd name = Some p \<and> fs' = (p, FileN d) # fs \<and> fs_lookup fs (butlast p) = Some DirN"
  by (auto simp: ioutil_WriteFile_def locate_def writable_def
      split: sum.splits option.splits if_splits)

lemma downloadTheTarball_failed:
  "downloadTheTarball e url w = (Some err, w') \<Longrightarrow> files w' = files w"
  by (auto simp: downloadTheTarball_def Let_def dest: ioutil_WriteFile_failed
      split: sum.splits prod.splits)

section \<open>What a step does depends on the files only\<close>

text \<open>
  The steps of \<open>main\<close> read nothing of the world but its files: from two worlds
  with the same files a step returns the same result and leaves the same files.
\<close>

lemma downloadTheTarball_files:
  assumes "downloadTheTarball e url w = (r, w')" and "files v = files w"
  shows "\<exists>v'. downloadTheTarball e url v = (r, v') \<and> files v' = files w'"
  using assms
  by (auto simp: downloadTheTarball_def Let_def split: sum.splits prod.splits)

lemma extract_tarball_files:
  assumes "extract_tarball e w = (r, w')" and "files v = files w"
  shows "\<exists>v'. extract_tarball e v = (r, v') \<and> files v' = files w'"
  using assms
  by (auto simp: extract_tarball_def split: sum.splits prod.splits)

lemma copyContentsToOutput_files_panic:
  assumes "copyContentsToOutput e src outPath w = Inl p" and "files v = files w"
  shows "copyContentsToOutput e src outPath v = Inl p"
  using assms
  by (auto simp: copyContentsToOutput_def Let_def split: if_splits prod.splits)

lemma copyContentsToOutput_files:
  assumes "copyContentsToOutput e src outPath w = Inr (r, w')" and "files v = files w"
  shows "\<exists>v'. copyContentsToOutput e src outPath v = Inr (r, v') \<and> files v' = files w'"
  using assms
  by (auto simp: copyContentsToOutput_def Let_def split: if_splits prod.splits)

lemma clearRemaining_files:
  assumes "clearRemaining e w = (r, w')" and "files v = files w"
  shows "\<exists>v'. clearRemaining e v = (r, v') \<and> files v' = files w'"
  using assms
  by (auto simp: clearRemaining_def split: prod.splits)

lemma setLatestVersion_files:
  assumes "setLatestVersion e outPath version w = (r, w')" and "files v = files w"
  shows "\<exists>v'. setLatestVersion e outPath version v = (r, v') \<and> files v' = files w'"
  using assms
  by (auto simp: setLatestVersion_def split: sum.splits prod.splits)

text \<open>
  How \<open>main_install\<close> ends, and with which files, from the results of its steps. A
  step that fails ends the run with the files that step left; the steps after it do
  not run.
\<close>

lemma main_install_download_failed:
  assumes "files v = files w"
    and "downloadTheTarball e (TarballURL response) w = (Some err, w1)"
  shows "fst (main_install e outputPath response v) = Fatal ''error downloading latest release.''"
    and "files (snd (main_install e outputPath response v)) = files w1"
proof -
  from downloadTheTarball_files [OF assms(2,1)] obtain v1 where
    "downloadTheTarball e (TarballURL response) v = (Some err, v1)" "files v1 = files w1" by blast
  then show "fst (main_install e outputPath response v) = Fatal ''error downloading latest release.''"
    and "files (snd (main_install e outputPath response v)) = files w1"
    by (simp_all add: main_install_def)
qed

lemma main_install_extract_failed:
  assumes "files v = files w"
    and "downloadTheTarball e (TarballURL response) w = (None, w1)"
    and "extract_tarball e w1 = (Some err, w2)"
  shows "fst (main_install e outputPath response v) = Fatal ''error extracting tar file.''"
    and "files (snd (main_install e outputPath response v)) = files w2"
proof -
  from downloadTheTarball_files [OF assms(2,1)] obtain v1 where
    d: "downloadTheTarball e (TarballURL response) v = (None, v1)" and "files v1 = files w1"
    by blast
  then have "files (returned DownloadTheTarball None v1) = files w1" by simp
  from extract_tarball_files [OF assms(3) this] obtain v2 where
    "extract_tarball e (returned DownloadTheTarball None v1) = (Some err, v2)"
    "files v2 = files w2" by blast
  with d show "fst (main_install e outputPath response v) = Fatal ''error extracting tar file.''"
    and "files (snd (main_install e outputPath response v)) = files w2"
    by (simp_all add: main_install_def)
qed

lemma main_install_copy_panicked:
  assumes "files v = files w"
    and "downloadTheTarball e (TarballURL response) w = (None, w1)"
    and "extract_tarball e w1 = (None, w2)"
    and "copyContentsToOutput e (path_Join [''.'', TempExtractionDirectory]) outputPath w2 = Inl p"
  shows "fst (main_install e outputPath response v) = Panicked p"
    and "files (snd (main_install e outputPath response v)) = files w2"
proof -
  from downloadTheTarball_files [OF assms(2,1)] obtain v1 where
    d: "downloadTheTarball e (TarballURL response) v = (None, v1)" and "files v1 = files w1"
    by blast
  then have "files (returned DownloadTheTarball None v1) = files w1" by simp
  from extract_tarball_files [OF assms(3) this] obtain v2 where
    x: "extract_tarball e (returned DownloadTheTarball None v1) = (None, v2)"
    and "files v2 = files w2" by blast
  then have f2: "files (returned Extract None v2) = files w2" by simp
  from copyContentsToOutput_files_panic [OF assms(4) this]
  have "copyContentsToOutput e (path_Join [''.'', TempExtractionDirectory]) outputPath
          (returned Extract None v2) = Inl p" .
  with d x f2 show "fst (main_install e outputPath response v) = Panicked p"
    and "files (snd (main_install e outputPath response v)) = files w2"
    by (simp_all add: main_install_def)
qed

lemma main_install_copy_failed:
  assumes "files v = files w"
    and "downloadTheTarball e (TarballURL response) w = (None, w1)"
    and "extract_tarball e w1 = (None, w2)"
    and "copyContentsToOutput e (path_Join [''.'', TempExtractionDirectory]) outputPath w2
           = Inr (Some err, w3)"
  shows "fst (main_install e outputPath response v) = Fatal ''error copying files.''"
    and "files (snd (main_install e outputPath response v)) = files w3"
proof -
  from downloadTheTarball_files [OF assms(2,1)] obtain v1 where
    d: "downloadTheTarball e (TarballURL response) v = (None, v1)" and "files v1 = files w1"
    by blast
  then have "files (returned DownloadTheTarball None v1) = files w1" by simp
  from extract_tarball_files [OF assms(3) this] obtain v2 where
    x: "extract_tarball e (returned DownloadTheTarball None v1) = (None, v2)"
    and "files v2 = files w2" by blast
  then have "files (returned Extract None v2) = files w2" by simp
  from copyContentsToOutput_files [OF assms(4) this] obtain v3 where
    "copyContentsToOutput e (path_Join [''.'', TempExtractionDirectory]) outputPath
          (returned Extract None v2) = Inr (Some err, v3)" "files v3 = files w3" by blast
  with d x show "fst (main_install e outputPath response v) = Fatal ''error copying files.''"
    and "files (snd (main_install e outputPath response v)) = files w3"
    by (simp_all add: main_install_def)
qed

lemma main_install_clear_failed:
  assumes "files v = files w"
    and "downloadTheTarball e (TarballURL response) w = (None, w1)"
    and "extract_tarball e w1 = (None, w2)"
    and "copyContentsToOutput e (path_Join [''.'', TempExtractionDirectory]) outputPath w2
           = Inr (None, w3)"
    and "clearRemaining e w3 = (Some err, w4)"
  shows "fst (main_install e outputPath response v) = Fatal ''error removing unnecessary files.''"
    and "files (snd (main_install e outputPath response v)) = files w4"
proof -
  from downloadTheTarball_files [OF assms(2,1)] obtain v1 where
    d: "downloadTheTarball e (TarballURL response) v = (None, v1)" and "files v1 = files w1"
    by blast
  then have "files (returned DownloadTheTarball None v1) = files w1" by simp
  from extract_tarball_files [OF assms(3) this] obtain v2 where
    x: "extract_tarball e (returned DownloadTheTarball None v1) = (None, v2)"
    and "files v2 = files w2" by blast
  then have "files (returned Extract None v2) = files w2" by simp
  from copyContentsToOutput_files [OF assms(4) this] obtain v3 where
    c: "copyContentsToOutput e (path_Join [''.'', TempExtractionDirectory]) outputPath
          (returned Extract None v2) = Inr (None, v3)" and "files v3 = files w3" by blast
  then have "files (returned CopyContentsToOutput None v3) = files w3" by simp
  from clearRemaining_files [OF assms(5) this] obtain v4 where
    "clearRemaining e (returned CopyContentsToOutput None v3) = (Some err, v4)"
    "files v4 = files w4" by blast
  with d x c
  show "fst (main_install e outputPath response v) = Fatal ''error removing unnecessary files.''"
    and "files (snd (main_install e outputPath response v)) = files w4"
    by (simp_all add: main_install_def)
qed

lemma main_install_saved:
  assumes "files v = files w"
    and "downloadTheTarball e (TarballURL response) w = (None, w1)"
    and "extract_tarball e w1 = (None, w2)"
    and "copyContentsToOutput e (path_Join [''.'', TempExtractionDirectory]) outputPath w2
           = Inr (None, w3)"
    and "clearRemaining e w3 = (None, w4)"
    and "setLatestVersion e outputPath (TagName response) w4 = (r, w5)"
  shows "fst (main_install e outputPath response v)
           = (case r of None \<Rightarrow> Returned
              | Some err \<Rightarrow> Fatal ''error saving latest release version.'')"
    and "files (snd (main_install e outputPath response v)) = files w5"
proof -
  from downloadTheTarball_files [OF assms(2,1)] obtain v1 where
    d: "downloadTheTarball e (TarballURL response) v = (None, v1)" and "files v1 = files w1"
    by blast
  then have "files (returned DownloadTheTarball None v1) = files w1" by simp
  from extract_tarball_files [OF assms(3) this] obtain v2 where
    x: "extract_tarball e (returned DownloadTheTarball None v1) = (None, v2)"
    and "files v2 = files w2" by blast
  then have "files (returned Extract None v2) = files w2" by simp
  from copyContentsToOutput_files [OF assms(4) this] obtain v3 where
    c: "copyContentsToOutput e (path_Join [''.'', TempExtractionDirectory]) outputPath
          (returned Extract None v2) = Inr (None, v3)" and "files v3 = files w3" by blast
  then have "files (returned CopyContentsToOutput None v3) = files w3" by simp
  from clearRemaining_files [OF assms(5) this] obtain v4 where
    l: "clearRemaining e (returned CopyContentsToOutput None v3) = (None, v4)"
    and "files v4 = files w4" by blast
  then have "files (returned ClearRemaining None v4) = files w4" by simp
  from setLatestVersion_files [OF assms(6) this] obtain v5 where
    "setLatestVersion e outputPath (TagName response) (returned ClearRemaining None v4) = (r, v5)"
    "files v5 = files w5" by blast
  with d x c l
  show "fst (main_install e outputPath response v)
           = (case r of None \<Rightarrow> Returned
              | Some err \<Rightarrow> Fatal ''error saving latest release version.'')"
    and "files (snd (main_install e outputPath response v)) = files w5"
    by (cases r; simp add: main_install_def)+
qed

text \<open>
  A run whose release information is fetched and whose comparison says that there is
  a newer version goes on to \<open>main_install\<close>, with the tag stripped, from the files
  it started with, or from those with the output directory created.
\<close>

lemma main_enters_install:
  assumes "parseArgs e = Inr out_arg"
    and "getAbsoluteOutputPath e out_arg = (outputPath, perr)"
    and "outputDirectoryExists e fs outputPath \<or> fst (os_MkdirAll (cwd e) fs outputPath) = None"
    and "http_get e SwaggerReleasesURL = Inr res"
    and "json_Unmarshal e res = Inr response"
    and "existsNewerVersion
           (if outputDirectoryExists e fs outputPath
            then main_previous e fs outputPath [''0'', ''0'', ''0''] else [''0'', ''0'', ''0''])
           (splitSemver (sanitizeVersion (TagName response))) = Inr True"
  shows "\<exists>v. main e fs = main_install e outputPath
                 (response\<lparr>TagName := sanitizeVersion (TagName response)\<rparr>) v \<and>
             files v = (if outputDirectoryExists e fs outputPath then fs
                        else snd (os_MkdirAll (cwd e) fs outputPath))"
proof (cases "outputDirectoryExists e fs outputPath")
  case True
  with assms(1,2,4,5,6)
  have "main e fs = main_install e outputPath
          (response\<lparr>TagName := sanitizeVersion (TagName response)\<rparr>)
          (returned FetchLatestReleaseInfo None
             \<lparr>files = fs, requests = [SwaggerReleasesURL], calls = []\<rparr>)"
    by (simp add: main_def main_update_def fetchLatestReleaseInfo_def Let_def)
  with True show ?thesis by (intro exI conjI) (assumption, simp)
next
  case False
  with assms(3) obtain fs1 where mk: "os_MkdirAll (cwd e) fs outputPath = (None, fs1)"
    by (cases "os_MkdirAll (cwd e) fs outputPath") auto
  with False assms(1,2,4,5,6)
  have "main e fs = main_install e outputPath
          (response\<lparr>TagName := sanitizeVersion (TagName response)\<rparr>)
          (returned FetchLatestReleaseInfo None
             ((returned CreateOutputDirectory None \<lparr>files = fs1, requests = [], calls = []\<rparr>)
                \<lparr>requests := [SwaggerReleasesURL]\<rparr>))"
    by (simp add: main_def main_update_def fetchLatestReleaseInfo_def createOutputDirectory_def
        Let_def returned_def)
  with False mk show ?thesis by (intro exI conjI) (assumption, simp)
qed

section \<open>What the clean-up and the saving of the version do to the files\<close>


text \<open>
  After \<open>setLatestVersion\<close> has written, the only new entry is the marker, in a
  directory that exists, and it holds what the YAML writer made of the version. When
  it fails nothing is written.
\<close>

lemma setLatestVersion_done:
  assumes "setLatestVersion e outPath version w = (None, w')"
  shows "\<exists>Y d. resolve (cwd e) (path_Join [outPath, SavingFileName]) = Some (Y @ [''.sud'']) \<and>
           yaml_Marshal e \<lparr>Version = version\<rparr> = Inr d \<and>
           files w' = (Y @ [''.sud''], FileN d) # files w \<and> fs_lookup (files w) Y = Some DirN"
proof -
  from assms obtain d fs' where
    m: "yaml_Marshal e \<lparr>Version = version\<rparr> = Inr d"
    and wr: "ioutil_WriteFile (cwd e) (files w) (path_Join [outPath, SavingFileName]) d = (None, fs')"
    and w': "files w' = fs'"
    by (auto simp: setLatestVersion_def split: sum.splits prod.splits)
  from ioutil_WriteFile_done [OF wr] obtain p where
    p: "resolve (cwd e) (path_Join [outPath, SavingFileName]) = Some p"
    and fs': "fs' = (p, FileN d) # files w"
    and par: "fs_lookup (files w) (butlast p) = Some DirN"
    by auto
  from resolve_marker [of "cwd e" outPath] p obtain Y where "p = Y @ [''.sud'']" by auto
  with fs' par w' p m show ?thesis by auto
qed

lemma setLatestVersion_failed:
  "setLatestVersion e outPath version w = (Some err, w') \<Longrightarrow> files w' = files w"
  by (auto simp: setLatestVersion_def dest: ioutil_WriteFile_failed
      split: sum.splits prod.splits)

lemma marker_is_not_the_archive:
  "resolve wd (path_Join [outPath, SavingFileName]) \<noteq> resolve wd TempTarFilename"
  using resolve_marker [of wd outPath] by (auto simp: resolve_temp)

section \<open>What the download and the extraction leave alone\<close>

lemma os_OpenFile_frame:
  "os_OpenFile wd fs name = Inr (f, fs') \<Longrightarrow>
     resolve wd name = Some f \<and> (\<forall>q. q \<noteq> f \<longrightarrow> fs_lookup fs' q = fs_lookup fs q)"
  by (auto simp: os_OpenFile_def locate_def fs_lookup_Cons fs_lookup_root
      split: sum.splits option.splits if_splits)

lemma io_Copy_frame:
  "io_Copy fs f d read_err = (r, fs') \<Longrightarrow> q \<noteq> f \<Longrightarrow> fs_lookup fs' q = fs_lookup fs q"
  by (auto simp: io_Copy_def Let_def fs_lookup_Cons fs_lookup_root)

text \<open>
  The extraction changes a node that exists only when it is the target of a
  regular-file entry.
\<close>

lemma Untar_loop_frame:
  assumes "Untar_loop wd dst nexts fs = (r, fs')"
    and "fs_lookup fs q \<noteq> None"
    and "\<forall>h b re. NextHeader h b re \<in> set nexts \<and> Typeflag h = tar_TypeReg \<longrightarrow>
           resolve wd (filepath_Join [dst, Name h]) \<noteq> Some q"
  shows "fs_lookup fs' q = fs_lookup fs q"
  using assms
proof (induction nexts arbitrary: fs)
  case Nil
  then show ?case by simp
next
  case (Cons n nexts)
  show ?case
  proof (cases n)
    case (NextErr err)
    with Cons.prems show ?thesis by simp
  next
    case NextNil
    with Cons.prems Cons.IH [of fs] show ?thesis by simp
  next
    case (NextHeader h b re)
    let ?target = "filepath_Join [dst, Name h]"
    from Cons.prems(3) have rest: "\<forall>h b re. NextHeader h b re \<in> set nexts \<and> Typeflag h = tar_TypeReg \<longrightarrow>
           resolve wd (filepath_Join [dst, Name h]) \<noteq> Some q" by auto
    consider (dir) "Typeflag h = tar_TypeDir"
      | (reg) "Typeflag h \<noteq> tar_TypeDir" "Typeflag h = tar_TypeReg"
      | (other) "Typeflag h \<noteq> tar_TypeDir" "Typeflag h \<noteq> tar_TypeReg"
      by blast
    then show ?thesis
    proof cases
      case dir
      show ?thesis
      proof (cases "os_Stat wd fs ?target")
        case (Inr info)
        with dir NextHeader Cons.prems(1) have "Untar_loop wd dst nexts fs = (r, fs')" by simp
        from Cons.IH [OF this Cons.prems(2) rest] show ?thesis .
      next
        case (Inl err)
        obtain r1 fs1 where mk: "os_MkdirAll wd fs ?target = (r1, fs1)"
          by (cases "os_MkdirAll wd fs ?target")
        have keep: "fs_lookup fs1 q = fs_lookup fs q"
          using os_MkdirAll_keeps [OF mk Cons.prems(2)] .
        show ?thesis
        proof (cases r1)
          case None
          with dir NextHeader Cons.prems(1) Inl mk
          have "Untar_loop wd dst nexts fs1 = (r, fs')" by simp
          from Cons.IH [OF this _ rest] keep Cons.prems(2) show ?thesis by simp
        next
          case (Some e1)
          with dir NextHeader Cons.prems(1) Inl mk have "fs' = fs1" by simp
          with keep show ?thesis by simp
        qed
      qed
    next
      case reg
      from reg(2) NextHeader Cons.prems(3) have ne: "resolve wd ?target \<noteq> Some q" by auto
      show ?thesis
      proof (cases "os_OpenFile wd fs ?target")
        case (Inl err)
        with reg NextHeader Cons.prems(1) show ?thesis by simp
      next
        case (Inr opened)
        obtain f fs1 where op: "os_OpenFile wd fs ?target = Inr (f, fs1)"
          using Inr by (cases opened) simp
        from os_OpenFile_frame [OF op] ne have qf: "q \<noteq> f"
          and k1: "fs_lookup fs1 q = fs_lookup fs q" by auto
        obtain r2 fs2 where cp: "io_Copy fs1 f b re = (r2, fs2)"
          by (cases "io_Copy fs1 f b re")
        from io_Copy_frame [OF cp qf] k1 have k2: "fs_lookup fs2 q = fs_lookup fs q" by simp
        show ?thesis
        proof (cases r2)
          case None
          with reg NextHeader Cons.prems(1) op cp
          have "Untar_loop wd dst nexts fs2 = (r, fs')" by simp
          from Cons.IH [OF this _ rest] k2 Cons.prems(2) show ?thesis by simp
        next
          case (Some e2)
          with reg NextHeader Cons.prems(1) op cp have "fs' = fs2" by simp
          with k2 show ?thesis by simp
        qed
      qed
    next
      case other
      with NextHeader Cons.prems(1) have "Untar_loop wd dst nexts fs = (r, fs')" by simp
      from Cons.IH [OF this Cons.prems(2) rest] show ?thesis .
    qed
  qed
qed

text \<open>
  A download that returns no error has written the body of the answer to the
  temporary archive, and the extraction that follows reads that body back.
\<close>

lemma downloadTheTarball_done:
  assumes "downloadTheTarball e url w = (None, w1)"
  shows "\<exists>body T. http_get e url = Inr body \<and> resolve (cwd e) TempTarFilename = Some T \<and>
           T \<noteq> [] \<and> \<not> file_above (files w) T \<and> files w1 = (T, FileN body) # files w"
proof -
  from assms obtain body fs1 where
    g: "http_get e url = Inr body"
    and wr: "ioutil_WriteFile (cwd e) (files w) TempTarFilename body = (None, fs1)"
    and w1: "files w1 = fs1"
    by (auto simp: downloadTheTarball_def Let_def split: sum.splits prod.splits)
  from wr obtain T where
    "resolve (cwd e) TempTarFilename = Some T" "\<not> file_above (files w) T"
    "fs1 = (T, FileN body) # files w"
    by (auto simp: ioutil_WriteFile_def locate_def split: sum.splits option.splits if_splits)
  moreover from this(1) have "T \<noteq> []" by (auto simp: resolve_temp)
  ultimately show ?thesis using g w1 by blast
qed

lemma file_above_Cons_self:
  "file_above ((T, n) # fs) T = file_above fs T"
proof -
  have "is_file ((T, n) # fs) (take k T) = is_file fs (take k T)" if "k < length T" for k
  proof -
    from that have "take k T \<noteq> T" by (metis length_take min.absorb4 nat_neq_iff)
    then show ?thesis by (simp add: is_file_def fs_lookup_Cons fs_lookup_root)
  qed
  then show ?thesis by (simp add: file_above_def list_ex_iff)
qed

lemma os_Open_written:
  assumes "resolve wd name = Some T" and "T \<noteq> []" and "\<not> file_above fs T"
  shows "os_Open wd ((T, FileN body) # fs) name = Inr (Inr body)"
  using assms
  by (simp add: os_Open_def os_Stat_def locate_def file_above_Cons_self fs_lookup_Cons)

lemma extract_tarball_frame:
  assumes "extract_tarball e w = (r, w')"
    and "os_Open (cwd e) (files w) TempTarFilename = Inr (Inr body)"
    and "fs_lookup (files w) q \<noteq> None"
    and "\<forall>nexts h b re.
           gzip_tar e body = Inr nexts \<and> NextHeader h b re \<in> set nexts \<and>
           Typeflag h = tar_TypeReg \<longrightarrow>
           resolve (cwd e) (filepath_Join [path_Join [''.'', TempExtractionDirectory], Name h])
             \<noteq> Some q"
  shows "fs_lookup (files w') q = fs_lookup (files w) q"
proof (cases "gzip_tar e body")
  case (Inl err)
  with assms(1,2) show ?thesis by (auto simp: extract_tarball_def Untar_def)
next
  case nexts: (Inr nexts)
  obtain r1 fs1 where u: "Untar_loop (cwd e) (path_Join [''.'', TempExtractionDirectory])
                             nexts (files w) = (r1, fs1)"
    by (cases "Untar_loop (cwd e) (path_Join [''.'', TempExtractionDirectory]) nexts (files w)")
  from assms(4) nexts
  have "\<forall>h b re. NextHeader h b re \<in> set nexts \<and> Typeflag h = tar_TypeReg \<longrightarrow>
          resolve (cwd e) (filepath_Join [path_Join [''.'', TempExtractionDirectory], Name h])
            \<noteq> Some q" by blast
  from Untar_loop_frame [OF u assms(3) this]
  have "fs_lookup fs1 q = fs_lookup (files w) q" .
  moreover from assms(2) nexts u assms(1) have "files w' = fs1"
    by (auto simp: extract_tarball_def Untar_def)
  ultimately show ?thesis by simp
qed

text \<open>
  From the start of the download to the end of the extraction, whether the extraction
  fails or not: a node that was there is as it was unless it is the temporary archive
  or the target of a regular-file entry of the archive that was downloaded.
\<close>

lemma download_extract_frame:
  assumes "downloadTheTarball e url w = (None, w1)"
    and "extract_tarball e w1 = (r, w2)"
    and "fs_lookup (files w) q \<noteq> None"
    and "resolve (cwd e) TempTarFilename \<noteq> Some q"
    and "\<forall>body nexts h b re.
           http_get e url = Inr body \<and> gzip_tar e body = Inr nexts \<and>
           NextHeader h b re \<in> set nexts \<and> Typeflag h = tar_TypeReg \<longrightarrow>
           resolve (cwd e) (filepath_Join [path_Join [''.'', TempExtractionDirectory], Name h])
             \<noteq> Some q"
  shows "fs_lookup (files w2) q = fs_lookup (files w) q"
proof -
  from downloadTheTarball_done [OF assms(1)] obtain body T where
    g: "http_get e url = Inr body"
    and T: "resolve (cwd e) TempTarFilename = Some T" "T \<noteq> []" "\<not> file_above (files w) T"
    and w1: "files w1 = (T, FileN body) # files w"
    by blast
  from T(1) assms(4) have qT: "q \<noteq> T" by simp
  with w1 have k1: "fs_lookup (files w1) q = fs_lookup (files w) q"
    by (simp add: fs_lookup_Cons fs_lookup_root)
  have op: "os_Open (cwd e) (files w1) TempTarFilename = Inr (Inr body)"
    unfolding w1 using T by (rule os_Open_written)
  from assms(5) g
  have "\<forall>nexts h b re.
           gzip_tar e body = Inr nexts \<and> NextHeader h b re \<in> set nexts \<and>
           Typeflag h = tar_TypeReg \<longrightarrow>
           resolve (cwd e) (filepath_Join [path_Join [''.'', TempExtractionDirectory], Name h])
             \<noteq> Some q" by blast
  from extract_tarball_frame [OF assms(2) op _ this] k1 assms(3) show ?thesis by simp
qed







section \<open>From the marker to the saved version\<close>

text \<open>
  C7, as the code has it: when the output directory exists and its marker file is
  absent, cannot be read, is not parsed by the YAML reader, or holds a version that is
  not valid (an empty one included), the baseline stays \<open>0.0.0\<close> and none of these
  cases ends the run. Up to the decision to install, the run does what a run from a
  file system \<open>fs'\<close> with no marker in the output directory does: both fail when
  the release information cannot be fetched, both panic when the comparison with
  \<open>0.0.0\<close> does, both end with \<open>os.Exit(0)\<close> when it says there is nothing
  newer, and in these cases the files are left as they were; when it says there is a
  newer version both go on to \<open>main_install\<close> with the same release, each from its
  own files. The steps of \<open>main_install\<close> then work on files that still hold
  whatever is at the marker's path, so the two runs need not end alike.
\<close>

theorem main_marker_load_failure_gives_baseline:
  assumes "parseArgs e = Inr out_arg"
    and "getAbsoluteOutputPath e out_arg = (outputPath, perr)"
    and "outputDirectoryExists e fs outputPath"
    and "\<not> doesVersionFileExists e fs outputPath
         \<or> (\<exists>err. getVersionFileData e fs outputPath = Inl err)
         \<or> (\<exists>d err. getVersionFileData e fs outputPath = Inr d \<and> yaml_Unmarshal e d = Inl err)
         \<or> (\<exists>d v. getVersionFileData e fs outputPath = Inr d \<and> yaml_Unmarshal e d = Inr v
                \<and> \<not> isVersionValueValid (sanitizeVersion (Version v)))"
    and "outputDirectoryExists e fs' outputPath"
    and "\<not> doesVersionFileExists e fs' outputPath"
  shows "main_previous e fs outputPath [''0'', ''0'', ''0''] = [''0'', ''0'', ''0'']
       \<and> (\<forall>err.
            http_get e SwaggerReleasesURL = Inl err
            \<or> (\<exists>res. http_get e SwaggerReleasesURL = Inr res \<and> json_Unmarshal e res = Inl err)
            \<longrightarrow>
            fst (main e fs) = Fatal ''failed to fetch latest Swagger UI release information.'' \<and>
            fst (main e fs') = fst (main e fs) \<and>
            files (snd (main e fs)) = fs \<and> files (snd (main e fs')) = fs')
       \<and> (\<forall>res response p.
            http_get e SwaggerReleasesURL = Inr res \<and> json_Unmarshal e res = Inr response \<and>
            existsNewerVersion [''0'', ''0'', ''0'']
              (splitSemver (sanitizeVersion (TagName response))) = Inl p \<longrightarrow>
            fst (main e fs) = Panicked p \<and> fst (main e fs') = fst (main e fs) \<and>
            files (snd (main e fs)) = fs \<and> files (snd (main e fs')) = fs')
       \<and> (\<forall>res response.
            http_get e SwaggerReleasesURL = Inr res \<and> json_Unmarshal e res = Inr response \<and>
            existsNewerVersion [''0'', ''0'', ''0'']
              (splitSemver (sanitizeVersion (TagName response))) = Inr False \<longrightarrow>
            fst (main e fs) = Exit 0 \<and> fst (main e fs') = fst (main e fs) \<and>
            files (snd (main e fs)) = fs \<and> files (snd (main e fs')) = fs')
       \<and> (\<forall>res response.
            http_get e SwaggerReleasesURL = Inr res \<and> json_Unmarshal e res = Inr response \<and>
            existsNewerVersion [''0'', ''0'', ''0'']
              (splitSemver (sanitizeVersion (TagName response))) = Inr True \<longrightarrow>
            main e fs = main_install e outputPath
                          (response\<lparr>TagName := sanitizeVersion (TagName response)\<rparr>)
                          \<lparr>files = fs, requests = [SwaggerReleasesURL],
                           calls = [(FetchLatestReleaseInfo, None)]\<rparr> \<and>
            main e fs' = main_install e outputPath
                          (response\<lparr>TagName := sanitizeVersion (TagName response)\<rparr>)
                          \<lparr>files = fs', requests = [SwaggerReleasesURL],
                           calls = [(FetchLatestReleaseInfo, None)]\<rparr>)"
proof -
  have prev: "main_previous e fs outputPath [''0'', ''0'', ''0''] = [''0'', ''0'', ''0'']"
    using assms(4)
    by (auto simp: main_previous_def isVersionFileValid_def doesVersionFileContainVersionKey_def
        Let_def split: sum.splits prod.splits bool.splits)
  have prev': "main_previous e fs' outputPath [''0'', ''0'', ''0''] = [''0'', ''0'', ''0'']"
    using assms(6) by (simp add: main_previous_def)
  have run: "main e fs = main_update e outputPath [''0'', ''0'', ''0'']
                           \<lparr>files = fs, requests = [], calls = []\<rparr>"
    using assms(1-3) prev by (simp add: main_def)
  have run': "main e fs' = main_update e outputPath [''0'', ''0'', ''0'']
                           \<lparr>files = fs', requests = [], calls = []\<rparr>"
    using assms(1,2,5) prev' by (simp add: main_def)
  have c1: "fst (main e fs) = Fatal ''failed to fetch latest Swagger UI release information.'' \<and>
            fst (main e fs') = fst (main e fs) \<and>
            files (snd (main e fs)) = fs \<and> files (snd (main e fs')) = fs'"
    if "http_get e SwaggerReleasesURL = Inl err
        \<or> (\<exists>res. http_get e SwaggerReleasesURL = Inr res \<and> json_Unmarshal e res = Inl err)"
    for err
    using that unfolding run run'
    by (auto simp: main_update_def fetchLatestReleaseInfo_def Let_def)
  have c2: "fst (main e fs) = Panicked p \<and> fst (main e fs') = fst (main e fs) \<and>
            files (snd (main e fs)) = fs \<and> files (snd (main e fs')) = fs'"
    if "http_get e SwaggerReleasesURL = Inr res" "json_Unmarshal e res = Inr response"
      "existsNewerVersion [''0'', ''0'', ''0'']
         (splitSemver (sanitizeVersion (TagName response))) = Inl p"
    for res response p
    using that unfolding run run'
    by (simp add: main_update_def fetchLatestReleaseInfo_def Let_def)
  have c3: "fst (main e fs) = Exit 0 \<and> fst (main e fs') = fst (main e fs) \<and>
            files (snd (main e fs)) = fs \<and> files (snd (main e fs')) = fs'"
    if "http_get e SwaggerReleasesURL = Inr res" "json_Unmarshal e res = Inr response"
      "existsNewerVersion [''0'', ''0'', ''0'']
         (splitSemver (sanitizeVersion (TagName response))) = Inr False"
    for res response
    using that unfolding run run'
    by (simp add: main_update_def fetchLatestReleaseInfo_def Let_def)
  have c4: "main e fs = main_install e outputPath
                          (response\<lparr>TagName := sanitizeVersion (TagName response)\<rparr>)
                          \<lparr>files = fs, requests = [SwaggerReleasesURL],
                           calls = [(FetchLatestReleaseInfo, None)]\<rparr> \<and>
            main e fs' = main_install e outputPath
                          (response\<lparr>TagName := sanitizeVersion (TagName response)\<rparr>)
                          \<lparr>files = fs', requests = [SwaggerReleasesURL],
                           calls = [(FetchLatestReleaseInfo, None)]\<rparr>"
    if "http_get e SwaggerReleasesURL = Inr res" "json_Unmarshal e res = Inr response"
      "existsNewerVersion [''0'', ''0'', ''0'']
         (splitSemver (sanitizeVersion (TagName response))) = Inr True"
    for res response
    using that unfolding run run'
    by (simp add: main_update_def fetchLatestReleaseInfo_def Let_def returned_def)
  show ?thesis
    apply (intro conjI)
    subgoal using prev .
    subgoal using c1 by blast
    subgoal using c2 by blast
    subgoal using c3 by blast
    subgoal using c4 by blast
    done
qed

text \<open>
  C7, witness: a marker file holding \<open>garbage\<close> is read, the YAML reader rejects
  it, and the run goes on to install the release \<open>1.2.3\<close> as the run from the
  directory without a marker does.
\<close>

theorem main_marker_load_failure_gives_baseline_witness:
  "getVersionFileData (demo_env ''.'' ''v1.2.3'' (Inr release_archive))
     (([''work'', ''.sud''], FileN ''garbage'') # work_dir) ''/work'' = Inr ''garbage'' \<and>
   yaml_Unmarshal (demo_env ''.'' ''v1.2.3'' (Inr release_archive)) ''garbage''
     = Inl (Err ''yaml: unmarshal error'') \<and>
   main (demo_env ''.'' ''v1.2.3'' (Inr release_archive))
     (([''work'', ''.sud''], FileN ''garbage'') # work_dir)
     = main_install (demo_env ''.'' ''v1.2.3'' (Inr release_archive)) ''/work''
         \<lparr>URL = SwaggerReleasesURL, TagName = ''1.2.3'', TarballURL = ''https://tarball''\<rparr>
         \<lparr>files = ([''work'', ''.sud''], FileN ''garbage'') # work_dir,
          requests = [SwaggerReleasesURL], calls = [(FetchLatestReleaseInfo, None)]\<rparr> \<and>
   main (demo_env ''.'' ''v1.2.3'' (Inr release_archive)) work_dir
     = main_install (demo_env ''.'' ''v1.2.3'' (Inr release_archive)) ''/work''
         \<lparr>URL = SwaggerReleasesURL, TagName = ''1.2.3'', TarballURL = ''https://tarball''\<rparr>
         \<lparr>files = work_dir,
          requests = [SwaggerReleasesURL], calls = [(FetchLatestReleaseInfo, None)]\<rparr>"
proof -
  let ?e = "demo_env ''.'' ''v1.2.3'' (Inr release_archive)"
  let ?fs = "([''work'', ''.sud''], FileN ''garbage'') # work_dir"
  let ?response = "\<lparr>URL = SwaggerReleasesURL, TagName = ''v1.2.3'', TarballURL = ''https://tarball''\<rparr>"
  have a: "parseArgs ?e = Inr ''.''" by code_simp
  have b: "getAbsoluteOutputPath ?e ''.'' = (''/work'', None)" by code_simp
  have c: "outputDirectoryExists ?e ?fs ''/work''" by code_simp
  have d1: "getVersionFileData ?e ?fs ''/work'' = Inr ''garbage''" by code_simp
  have d2: "yaml_Unmarshal ?e ''garbage'' = Inl (Err ''yaml: unmarshal error'')" by code_simp
  from d1 d2 have d:
    "\<not> doesVersionFileExists ?e ?fs ''/work''
     \<or> (\<exists>err. getVersionFileData ?e ?fs ''/work'' = Inl err)
     \<or> (\<exists>d err. getVersionFileData ?e ?fs ''/work'' = Inr d \<and> yaml_Unmarshal ?e d = Inl err)
     \<or> (\<exists>d v. getVersionFileData ?e ?fs ''/work'' = Inr d \<and> yaml_Unmarshal ?e d = Inr v
            \<and> \<not> isVersionValueValid (sanitizeVersion (Version v)))"
    by blast
  have c': "outputDirectoryExists ?e work_dir ''/work''" by code_simp
  have n': "\<not> doesVersionFileExists ?e work_dir ''/work''" by code_simp
  have g: "http_get ?e SwaggerReleasesURL = Inr ''release''" by code_simp
  have j: "json_Unmarshal ?e ''release'' = Inr ?response" by code_simp
  have x: "existsNewerVersion [''0'', ''0'', ''0'']
             (splitSemver (sanitizeVersion (TagName ?response))) = Inr True" by code_simp
  have t: "?response\<lparr>TagName := sanitizeVersion (TagName ?response)\<rparr>
             = \<lparr>URL = SwaggerReleasesURL, TagName = ''1.2.3'', TarballURL = ''https://tarball''\<rparr>"
    by code_simp
  from g j x
  have newer: "http_get ?e SwaggerReleasesURL = Inr ''release'' \<and>
               json_Unmarshal ?e ''release'' = Inr ?response \<and>
               existsNewerVersion [''0'', ''0'', ''0'']
                 (splitSemver (sanitizeVersion (TagName ?response))) = Inr True"
    by (intro conjI)
  from main_marker_load_failure_gives_baseline [OF a b c d c' n', THEN conjunct2, THEN conjunct2,
      THEN conjunct2, THEN conjunct2, rule_format, OF newer]
  show ?thesis unfolding t using d1 d2 by blast
qed

text \<open>
  C7, counterexample to the claim as stated: the marker's path \<open>/work/.sud\<close> is a
  directory. The marker exists and cannot be read, the baseline is \<open>0.0.0\<close> and the
  release is downloaded, extracted and copied, but the version cannot be saved over a
  directory and the run ends with a fatal error. The same run from \<open>/work\<close> with no
  marker returns from \<open>main\<close>.
\<close>

theorem main_marker_directory_counterexample:
  "outputDirectoryExists (demo_env ''.'' ''v1.0.0'' (Inr release_archive))
     (([''work'', ''.sud''], DirN) # work_dir) ''/work'' \<and>
   doesVersionFileExists (demo_env ''.'' ''v1.0.0'' (Inr release_archive))
     (([''work'', ''.sud''], DirN) # work_dir) ''/work'' \<and>
   getVersionFileData (demo_env ''.'' ''v1.0.0'' (Inr release_archive))
     (([''work'', ''.sud''], DirN) # work_dir) ''/work'' = Inl EISDIR \<and>
   fst (main (demo_env ''.'' ''v1.0.0'' (Inr release_archive))
          (([''work'', ''.sud''], DirN) # work_dir))
     = Fatal ''error saving latest release version.'' \<and>
   doesVersionFileExists (demo_env ''.'' ''v1.0.0'' (Inr release_archive)) work_dir ''/work''
     = False \<and>
   fst (main (demo_env ''.'' ''v1.0.0'' (Inr release_archive)) work_dir) = Returned"
  by code_simp

text \<open>
  C3, as the code has it: \<open>setLatestVersion\<close>, the only write \<open>main\<close> itself
  makes to the marker, is the last step. Take a run that goes on to the download, from
  the files \<open>files w0\<close>, in which every node that was there before the run is as it
  was. When the download fails the run ends with exit status 1 and those files. When
  the download has succeeded and the extraction fails (exit status 1) or the copy
  panics (exit status 2), a node that was there before the run is as it was unless it
  is the temporary archive or the target of a regular-file entry of the archive that
  was downloaded; the marker is never the temporary archive, so it changes only when
  an entry's target is the marker. When the copy returns an error the run ends with
  exit status 1 and the files the copy left; when the clean-up fails, with the files
  the clean-up left; when the saving fails, with the files the clean-up left. Only
  when all the steps have returned without an error is the marker written: the files
  at the end are those the clean-up left with the marker on top, which holds what the
  YAML writer makes of the stripped tag.
\<close>

theorem main_saves_version_last:
  assumes "parseArgs e = Inr out_arg"
    and "getAbsoluteOutputPath e out_arg = (outputPath, perr)"
    and "outputDirectoryExists e fs outputPath \<or> fst (os_MkdirAll (cwd e) fs outputPath) = None"
    and "http_get e SwaggerReleasesURL = Inr res"
    and "json_Unmarshal e res = Inr response"
    and "existsNewerVersion
           (if outputDirectoryExists e fs outputPath
            then main_previous e fs outputPath [''0'', ''0'', ''0''] else [''0'', ''0'', ''0''])
           (splitSemver (sanitizeVersion (TagName response))) = Inr True"
    and "files w0 = (if outputDirectoryExists e fs outputPath then fs
                     else snd (os_MkdirAll (cwd e) fs outputPath))"
  shows "(\<forall>q. fs_lookup fs q \<noteq> None \<longrightarrow> fs_lookup (files w0) q = fs_lookup fs q)
       \<and> (\<forall>err w1.
            downloadTheTarball e (TarballURL response) w0 = (Some err, w1) \<longrightarrow>
            exit_status (fst (main e fs)) = 1 \<and> files (snd (main e fs)) = files w0)
       \<and> (\<forall>w1 err w2 q.
            downloadTheTarball e (TarballURL response) w0 = (None, w1) \<and>
            extract_tarball e w1 = (Some err, w2) \<and>
            fs_lookup fs q \<noteq> None \<and>
            resolve (cwd e) TempTarFilename \<noteq> Some q \<and>
            (\<forall>body nexts h b re.
               http_get e (TarballURL response) = Inr body \<and> gzip_tar e body = Inr nexts \<and>
               NextHeader h b re \<in> set nexts \<and> Typeflag h = tar_TypeReg \<longrightarrow>
               resolve (cwd e)
                 (filepath_Join [path_Join [''.'', TempExtractionDirectory], Name h])
                 \<noteq> Some q) \<longrightarrow>
            exit_status (fst (main e fs)) = 1 \<and>
            files (snd (main e fs)) = files w2 \<and>
            fs_lookup (files (snd (main e fs))) q = fs_lookup fs q)
       \<and> (\<forall>w1 w2 p q.
            downloadTheTarball e (TarballURL response) w0 = (None, w1) \<and>
            extract_tarball e w1 = (None, w2) \<and>
            copyContentsToOutput e (path_Join [''.'', TempExtractionDirectory]) outputPath w2
              = Inl p \<and>
            fs_lookup fs q \<noteq> None \<and>
            resolve (cwd e) TempTarFilename \<noteq> Some q \<and>
            (\<forall>body nexts h b re.
               http_get e (TarballURL response) = Inr body \<and> gzip_tar e body = Inr nexts \<and>
               NextHeader h b re \<in> set nexts \<and> Typeflag h = tar_TypeReg \<longrightarrow>
               resolve (cwd e)
                 (filepath_Join [path_Join [''.'', TempExtractionDirectory], Name h])
                 \<noteq> Some q) \<longrightarrow>
            exit_status (fst (main e fs)) = 2 \<and>
            files (snd (main e fs)) = files w2 \<and>
            fs_lookup (files (snd (main e fs))) q = fs_lookup fs q)
       \<and> (\<forall>w1 w2 err w3.
            downloadTheTarball e (TarballURL response) w0 = (None, w1) \<and>
            extract_tarball e w1 = (None, w2) \<and>
            copyContentsToOutput e (path_Join [''.'', TempExtractionDirectory]) outputPath w2
              = Inr (Some err, w3) \<longrightarrow>
            exit_status (fst (main e fs)) = 1 \<and> files (snd (main e fs)) = files w3)
       \<and> (\<forall>w1 w2 w3 err w4.
            downloadTheTarball e (TarballURL response) w0 = (None, w1) \<and>
            extract_tarball e w1 = (None, w2) \<and>
            copyContentsToOutput e (path_Join [''.'', TempExtractionDirectory]) outputPath w2
              = Inr (None, w3) \<and>
            clearRemaining e w3 = (Some err, w4) \<longrightarrow>
            exit_status (fst (main e fs)) = 1 \<and> files (snd (main e fs)) = files w4)
       \<and> (\<forall>w1 w2 w3 w4 err w5.
            downloadTheTarball e (TarballURL response) w0 = (None, w1) \<and>
            extract_tarball e w1 = (None, w2) \<and>
            copyContentsToOutput e (path_Join [''.'', TempExtractionDirectory]) outputPath w2
              = Inr (None, w3) \<and>
            clearRemaining e w3 = (None, w4) \<and>
            setLatestVersion e outputPath (sanitizeVersion (TagName response)) w4
              = (Some err, w5) \<longrightarrow>
            exit_status (fst (main e fs)) = 1 \<and> files (snd (main e fs)) = files w4)
       \<and> (\<forall>w1 w2 w3 w4 w5.
            downloadTheTarball e (TarballURL response) w0 = (None, w1) \<and>
            extract_tarball e w1 = (None, w2) \<and>
            copyContentsToOutput e (path_Join [''.'', TempExtractionDirectory]) outputPath w2
              = Inr (None, w3) \<and>
            clearRemaining e w3 = (None, w4) \<and>
            setLatestVersion e outputPath (sanitizeVersion (TagName response)) w4
              = (None, w5) \<longrightarrow>
            fst (main e fs) = Returned \<and>
            (\<exists>M d. resolve (cwd e) (path_Join [outputPath, SavingFileName]) = Some M \<and>
               yaml_Marshal e \<lparr>Version = sanitizeVersion (TagName response)\<rparr> = Inr d \<and>
               files (snd (main e fs)) = (M, FileN d) # files w4))
       \<and> resolve (cwd e) (path_Join [outputPath, SavingFileName])
           \<noteq> resolve (cwd e) TempTarFilename"
proof -
  let ?response = "response\<lparr>TagName := sanitizeVersion (TagName response)\<rparr>"
  let ?src = "path_Join [''.'', TempExtractionDirectory]"
  from main_enters_install [OF assms(1-6)] assms(7) obtain v where
    run: "main e fs = main_install e outputPath ?response v" and v: "files v = files w0"
    by auto
  have c0: "fs_lookup (files w0) q = fs_lookup fs q" if "fs_lookup fs q \<noteq> None" for q
  proof (cases "outputDirectoryExists e fs outputPath")
    case True
    with assms(7) show ?thesis by simp
  next
    case False
    with assms(7)
    have "os_MkdirAll (cwd e) fs outputPath = (fst (os_MkdirAll (cwd e) fs outputPath), files w0)"
      by simp
    from os_MkdirAll_keeps [OF this that] show ?thesis .
  qed
  have c1: "exit_status (fst (main e fs)) = 1 \<and> files (snd (main e fs)) = files w0"
    if "downloadTheTarball e (TarballURL response) w0 = (Some err, w1)" for err w1
    using main_install_download_failed [of v w0 e ?response err w1 outputPath]
      downloadTheTarball_failed [OF that] v that run by simp
  have keep: "fs_lookup (files w2) q = fs_lookup fs q"
    if d: "downloadTheTarball e (TarballURL response) w0 = (None, w1)"
      and x: "extract_tarball e w1 = (r, w2)"
      and q: "fs_lookup fs q \<noteq> None" "resolve (cwd e) TempTarFilename \<noteq> Some q"
      and n: "\<forall>body nexts h b re.
               http_get e (TarballURL response) = Inr body \<and> gzip_tar e body = Inr nexts \<and>
               NextHeader h b re \<in> set nexts \<and> Typeflag h = tar_TypeReg \<longrightarrow>
               resolve (cwd e) (filepath_Join [?src, Name h]) \<noteq> Some q"
    for w1 r w2 q
  proof -
    from c0 [OF q(1)] q(1) have "fs_lookup (files w0) q \<noteq> None" by simp
    from download_extract_frame [OF d x this q(2) n] c0 [OF q(1)] show ?thesis by simp
  qed
  have c2: "exit_status (fst (main e fs)) = 1 \<and>
            files (snd (main e fs)) = files w2 \<and>
            fs_lookup (files (snd (main e fs))) q = fs_lookup fs q"
    if d: "downloadTheTarball e (TarballURL response) w0 = (None, w1)"
      and x: "extract_tarball e w1 = (Some err, w2)"
      and q: "fs_lookup fs q \<noteq> None" "resolve (cwd e) TempTarFilename \<noteq> Some q"
      and n: "\<forall>body nexts h b re.
               http_get e (TarballURL response) = Inr body \<and> gzip_tar e body = Inr nexts \<and>
               NextHeader h b re \<in> set nexts \<and> Typeflag h = tar_TypeReg \<longrightarrow>
               resolve (cwd e) (filepath_Join [?src, Name h]) \<noteq> Some q"
    for w1 err w2 q
    using main_install_extract_failed [of v w0 e ?response w1 err w2 outputPath] v d x run
      keep [OF d x q n] by simp
  have c2': "exit_status (fst (main e fs)) = 2 \<and>
            files (snd (main e fs)) = files w2 \<and>
            fs_lookup (files (snd (main e fs))) q = fs_lookup fs q"
    if d: "downloadTheTarball e (TarballURL response) w0 = (None, w1)"
      and x: "extract_tarball e w1 = (None, w2)"
      and p: "copyContentsToOutput e ?src outputPath w2 = Inl p"
      and q: "fs_lookup fs q \<noteq> None" "resolve (cwd e) TempTarFilename \<noteq> Some q"
      and n: "\<forall>body nexts h b re.
               http_get e (TarballURL response) = Inr body \<and> gzip_tar e body = Inr nexts \<and>
               NextHeader h b re \<in> set nexts \<and> Typeflag h = tar_TypeReg \<longrightarrow>
               resolve (cwd e) (filepath_Join [?src, Name h]) \<noteq> Some q"
    for w1 w2 p q
    using main_install_copy_panicked [of v w0 e ?response w1 w2 outputPath p] v d x p run
      keep [OF d x q n] by simp
  have c3: "exit_status (fst (main e fs)) = 1 \<and> files (snd (main e fs)) = files w3"
    if "downloadTheTarball e (TarballURL response) w0 = (None, w1)"
      and "extract_tarball e w1 = (None, w2)"
      and "copyContentsToOutput e ?src outputPath w2 = Inr (Some err, w3)" for w1 w2 err w3
    using main_install_copy_failed [of v w0 e ?response w1 w2 outputPath err w3]
      v that run by simp
  have c4: "exit_status (fst (main e fs)) = 1 \<and> files (snd (main e fs)) = files w4"
    if "downloadTheTarball e (TarballURL response) w0 = (None, w1)"
      and "extract_tarball e w1 = (None, w2)"
      and "copyContentsToOutput e ?src outputPath w2 = Inr (None, w3)"
      and "clearRemaining e w3 = (Some err, w4)" for w1 w2 w3 err w4
    using main_install_clear_failed [of v w0 e ?response w1 w2 outputPath w3 err w4]
      v that run by simp
  have c5: "exit_status (fst (main e fs)) = 1 \<and> files (snd (main e fs)) = files w4"
    if "downloadTheTarball e (TarballURL response) w0 = (None, w1)"
      and "extract_tarball e w1 = (None, w2)"
      and "copyContentsToOutput e ?src outputPath w2 = Inr (None, w3)"
      and "clearRemaining e w3 = (None, w4)"
      and "setLatestVersion e outputPath (sanitizeVersion (TagName response)) w4 = (Some err, w5)"
    for w1 w2 w3 w4 err w5
    using main_install_saved [of v w0 e ?response w1 w2 outputPath w3 w4 "Some err" w5]
      setLatestVersion_failed [OF that(5)] v that run by simp
  have c6: "fst (main e fs) = Returned \<and>
            (\<exists>M d. resolve (cwd e) (path_Join [outputPath, SavingFileName]) = Some M \<and>
               yaml_Marshal e \<lparr>Version = sanitizeVersion (TagName response)\<rparr> = Inr d \<and>
               files (snd (main e fs)) = (M, FileN d) # files w4)"
    if "downloadTheTarball e (TarballURL response) w0 = (None, w1)"
      and "extract_tarball e w1 = (None, w2)"
      and "copyContentsToOutput e ?src outputPath w2 = Inr (None, w3)"
      and "clearRemaining e w3 = (None, w4)"
      and "setLatestVersion e outputPath (sanitizeVersion (TagName response)) w4 = (None, w5)"
    for w1 w2 w3 w4 w5
    using main_install_saved [of v w0 e ?response w1 w2 outputPath w3 w4 None w5]
      setLatestVersion_done [OF that(5)] v that run by auto
  have c7: "resolve (cwd e) (path_Join [outputPath, SavingFileName])
              \<noteq> resolve (cwd e) TempTarFilename"
    by (rule marker_is_not_the_archive)
  show ?thesis
    apply (intro conjI)
    subgoal using c0 by blast
    subgoal using c1 by blast
    subgoal using c2 by blast
    subgoal using c2' by blast
    subgoal using c3 by blast
    subgoal using c4 by blast
    subgoal using c5 by blast
    subgoal using c6 by blast
    subgoal using c7 .
    done
qed

text \<open>
  C3, witness: the marker records \<open>1.0.0\<close> and the release is \<open>v2.0.0\<close>. The
  archive is downloaded; its directory \<open>top/\<close> and its file \<open>top/a\<close> are extracted,
  then the next read of the archive fails. The run ends with exit status 1, the
  extracted file is there, and the marker still records \<open>1.0.0\<close>.
\<close>

theorem main_saves_version_last_witness:
  "exit_status
     (fst (main (demo_env ''.'' ''v2.0.0''
                   (Inr [dir_entry ''top/'', file_entry ''top/a'' ''data'',
                         NextErr (Err ''unexpected EOF'')]))
             (work_dir_with_marker ''1.0.0''))) = 1 \<and>
   fs_lookup
     (files (snd (main (demo_env ''.'' ''v2.0.0''
                   (Inr [dir_entry ''top/'', file_entry ''top/a'' ''data'',
                         NextErr (Err ''unexpected EOF'')]))
             (work_dir_with_marker ''1.0.0''))))
     [''work'', ''extracted'', ''top'', ''a''] = Some (FileN ''data'') \<and>
   fs_lookup
     (files (snd (main (demo_env ''.'' ''v2.0.0''
                   (Inr [dir_entry ''top/'', file_entry ''top/a'' ''data'',
                         NextErr (Err ''unexpected EOF'')]))
             (work_dir_with_marker ''1.0.0''))))
     [''work'', ''.sud''] = Some (FileN (''version: 1.0.0'' @ [newline]))"
proof -
  let ?archive = "[dir_entry ''top/'', file_entry ''top/a'' ''data'',
                   NextErr (Err ''unexpected EOF'')]"
  let ?e = "demo_env ''.'' ''v2.0.0'' (Inr ?archive)"
  let ?fs = "work_dir_with_marker ''1.0.0''"
  let ?response = "\<lparr>URL = SwaggerReleasesURL, TagName = ''v2.0.0'', TarballURL = ''https://tarball''\<rparr>"
  let ?w0 = "\<lparr>files = ?fs, requests = [], calls = []\<rparr>"
  let ?w1 = "snd (downloadTheTarball ?e ''https://tarball'' ?w0)"
  let ?w2 = "snd (extract_tarball ?e ?w1)"
  let ?q = "[''work'', ''.sud'']"
  have a1: "parseArgs ?e = Inr ''.''" by code_simp
  have a2: "getAbsoluteOutputPath ?e ''.'' = (''/work'', None)" by code_simp
  have a3: "outputDirectoryExists ?e ?fs ''/work''
            \<or> fst (os_MkdirAll (cwd ?e) ?fs ''/work'') = None" by code_simp
  have a4: "http_get ?e SwaggerReleasesURL = Inr ''release''" by code_simp
  have a5: "json_Unmarshal ?e ''release'' = Inr ?response" by code_simp
  have a6: "existsNewerVersion
           (if outputDirectoryExists ?e ?fs ''/work''
            then main_previous ?e ?fs ''/work'' [''0'', ''0'', ''0''] else [''0'', ''0'', ''0''])
           (splitSemver (sanitizeVersion (TagName ?response))) = Inr True" by code_simp
  have a7: "files ?w0 = (if outputDirectoryExists ?e ?fs ''/work'' then ?fs
                     else snd (os_MkdirAll (cwd ?e) ?fs ''/work''))" by code_simp
  have d: "downloadTheTarball ?e (TarballURL ?response) ?w0 = (None, ?w1)" by code_simp
  have x: "extract_tarball ?e ?w1 = (Some (Err ''unexpected EOF''), ?w2)" by code_simp
  have q1: "fs_lookup ?fs ?q \<noteq> None" by code_simp
  have q2: "resolve (cwd ?e) TempTarFilename \<noteq> Some ?q" by code_simp
  have body: "http_get ?e (TarballURL ?response) = Inr ''archive''" by code_simp
  have nexts: "gzip_tar ?e ''archive'' = Inr ?archive" by code_simp
  have target: "resolve (cwd ?e)
                  (filepath_Join [path_Join [''.'', TempExtractionDirectory], ''top/a''])
                  \<noteq> Some ?q" by code_simp
  have q3: "\<forall>body nexts h b re.
               http_get ?e (TarballURL ?response) = Inr body \<and> gzip_tar ?e body = Inr nexts \<and>
               NextHeader h b re \<in> set nexts \<and> Typeflag h = tar_TypeReg \<longrightarrow>
               resolve (cwd ?e)
                 (filepath_Join [path_Join [''.'', TempExtractionDirectory], Name h])
                 \<noteq> Some ?q"
  proof (intro allI impI, elim conjE)
    fix body nexts h b re
    assume "http_get ?e (TarballURL ?response) = Inr body" "gzip_tar ?e body = Inr nexts"
      and mem: "NextHeader h b re \<in> set nexts" and reg: "Typeflag h = tar_TypeReg"
    with body nexts have "nexts = ?archive" by simp
    with mem reg have "Name h = ''top/a''"
      by (auto simp: dir_entry_def file_entry_def tar_TypeReg_def tar_TypeDir_def)
    with target
    show "resolve (cwd ?e) (filepath_Join [path_Join [''.'', TempExtractionDirectory], Name h])
            \<noteq> Some ?q" by simp
  qed
  have written: "fs_lookup (files (snd (main ?e ?fs))) [''work'', ''extracted'', ''top'', ''a'']
                   = Some (FileN ''data'')" by code_simp
  have before: "fs_lookup ?fs ?q = Some (FileN (''version: 1.0.0'' @ [newline]))" by code_simp
  from d x q1 q2 q3
  have failed: "downloadTheTarball ?e (TarballURL ?response) ?w0 = (None, ?w1) \<and>
        extract_tarball ?e ?w1 = (Some (Err ''unexpected EOF''), ?w2) \<and>
        fs_lookup ?fs ?q \<noteq> None \<and>
        resolve (cwd ?e) TempTarFilename \<noteq> Some ?q \<and>
        (\<forall>body nexts h b re.
               http_get ?e (TarballURL ?response) = Inr body \<and> gzip_tar ?e body = Inr nexts \<and>
               NextHeader h b re \<in> set nexts \<and> Typeflag h = tar_TypeReg \<longrightarrow>
               resolve (cwd ?e)
                 (filepath_Join [path_Join [''.'', TempExtractionDirectory], Name h])
                 \<noteq> Some ?q)"
    by (intro conjI)
  from main_saves_version_last [OF a1 a2 a3 a4 a5 a6 a7, THEN conjunct2, THEN conjunct2,
      THEN conjunct1, rule_format, OF failed]
  have "exit_status (fst (main ?e ?fs)) = 1 \<and>
        fs_lookup (files (snd (main ?e ?fs))) ?q = fs_lookup ?fs ?q" by blast
  with written before show ?thesis by simp
qed

text \<open>
  C3, counterexample to the claim as stated: the output directory is the working
  directory and its marker records \<open>1.0.0\<close>. The archive's first entry is
  \<open>../.sud\<close>, whose target is the marker; its four bytes are written over the
  start of the marker. The next read of the archive fails, so the extraction fails
  and the run exits with status 1, with the marker's content changed.
\<close>

theorem main_marker_overwritten_by_entry_counterexample:
  "fst (main (demo_env ''.'' ''v2.0.0''
              (Inr [file_entry ''../.sud'' ''evil'', NextErr (Err ''unexpected EOF'')]))
         (work_dir_with_marker ''1.0.0'')) = Fatal ''error extracting tar file.'' \<and>
   fs_lookup (work_dir_with_marker ''1.0.0'') [''work'', ''.sud'']
     = Some (FileN (''version: 1.0.0'' @ [newline])) \<and>
   fs_lookup (files (snd (main (demo_env ''.'' ''v2.0.0''
              (Inr [file_entry ''../.sud'' ''evil'', NextErr (Err ''unexpected EOF'')]))
         (work_dir_with_marker ''1.0.0'')))) [''work'', ''.sud'']
     = Some (FileN (''evilion: 1.0.0'' @ [newline]))"
  by code_simp




section \<open>Properties of the copy and the extraction\<close>

lemma sorted_hd_Min: "sorted xs \<Longrightarrow> xs \<noteq> [] \<Longrightarrow> xs ! 0 = Min (set xs)"
proof (cases xs)
  case Nil
  then show "xs \<noteq> [] \<Longrightarrow> ?thesis" by simp
next
  case (Cons x ys)
  assume "sorted xs"
  with Cons have "\<forall>y \<in> set xs. x \<le> y" by auto
  moreover from Cons have "x \<in> set xs" by simp
  ultimately have "Min (set xs) = x" by (intro Min_eqI) auto
  with Cons show ?thesis by simp
qed

lemma ioutil_ReadDir_sorted:
  "ioutil_ReadDir wd fs name = Inr names \<Longrightarrow> sorted names"
  by (auto simp: ioutil_ReadDir_def split: sum.splits option.splits node.splits)

text \<open>
  C6, as the code has it: when the extraction directory has at least one entry at its
  top, \<open>copyContentsToOutput\<close> takes the entry with the least name, however many
  there are, copies its \<open>dist\<close> to the output directory and returns what
  \<open>copier.Copy\<close> returns; the number of entries is never checked.
\<close>

theorem copyContentsToOutput_takes_least_entry:
  assumes "ioutil_ReadDir (cwd e) (files w) (src @ ''/'') = Inr names"
    and "names \<noteq> []"
  shows "copyContentsToOutput e src outPath w =
           Inr (fst (copier_Copy e (cwd e) (files w)
                       (path_Join [src, Min (set names), ''/dist'']) outPath),
                w\<lparr>files := snd (copier_Copy e (cwd e) (files w)
                                  (path_Join [src, Min (set names), ''/dist'']) outPath)\<rparr>)"
proof -
  have "names ! 0 = Min (set names)"
    using ioutil_ReadDir_sorted [OF assms(1)] assms(2) by (rule sorted_hd_Min)
  with assms show ?thesis
    by (simp add: copyContentsToOutput_def Let_def split: prod.splits)
qed

text \<open>
  C6, witness: with the entries \<open>a\<close> and \<open>b\<close> the copy is that of
  \<open>extracted/a/dist\<close>, and it succeeds.
\<close>

theorem copyContentsToOutput_takes_least_entry_witness:
  "ioutil_ReadDir ''/work'' staged_two ''extracted/'' = Inr [''a'', ''b''] \<and>
   copyContentsToOutput (demo_env ''.'' ''v1.0.0'' (Inr [])) ''extracted'' ''/work''
       \<lparr>files = staged_two, requests = [], calls = []\<rparr>
     = Inr (None, \<lparr>files = snd (copy_tree ''/work'' staged_two ''extracted/a/dist'' ''/work''),
                  requests = [], calls = []\<rparr>)"
proof -
  let ?e = "demo_env ''.'' ''v1.0.0'' (Inr [])"
  let ?w = "\<lparr>files = staged_two, requests = [], calls = []\<rparr>"
  have rd: "ioutil_ReadDir (cwd ?e) (files ?w) (''extracted'' @ ''/'') = Inr [''a'', ''b'']"
    by code_simp
  have ne: "[''a'', ''b''] \<noteq> []" by simp
  have least: "Min (set [''a'', ''b'']) = ''a''" by simp
  have src: "path_Join [''extracted'', ''a'', ''/dist''] = ''extracted/a/dist''" by code_simp
  have ok: "fst (copy_tree ''/work'' staged_two ''extracted/a/dist'' ''/work'') = None"
    by code_simp
  have rd': "ioutil_ReadDir ''/work'' staged_two ''extracted/'' = Inr [''a'', ''b'']"
    by code_simp
  from copyContentsToOutput_takes_least_entry [OF rd ne, of "''/work''"] rd'
  show ?thesis
    unfolding least src by (simp add: demo_env_def ok)
qed

text \<open>
  C6, counterexample to the claim as stated: the archive has two entries at its top,
  \<open>a\<close> (with \<open>dist\<close>) and \<open>b\<close>. After the extraction the directory holds both;
  the run copies \<open>a/dist\<close>, returns from \<open>main\<close> and has written the marker.
\<close>

theorem main_two_top_level_entries_counterexample:
  "fst (extract_tarball (demo_env ''.'' ''v1.0.0''
          (Inr [dir_entry ''a/dist/'', file_entry ''a/dist/index.html'' ''<html>'', dir_entry ''b/'']))
        \<lparr>files = ([''work'', ''temp.tar.gz''], FileN ''archive'') # work_dir, requests = [], calls = []\<rparr>)
     = None \<and>
   ioutil_ReadDir ''/work'' (files (snd (extract_tarball (demo_env ''.'' ''v1.0.0''
          (Inr [dir_entry ''a/dist/'', file_entry ''a/dist/index.html'' ''<html>'', dir_entry ''b/'']))
        \<lparr>files = ([''work'', ''temp.tar.gz''], FileN ''archive'') # work_dir, requests = [], calls = []\<rparr>)))
       ''extracted/'' = Inr [''a'', ''b''] \<and>
   fst (main (demo_env ''.'' ''v1.0.0''
          (Inr [dir_entry ''a/dist/'', file_entry ''a/dist/index.html'' ''<html>'', dir_entry ''b/'']))
        work_dir) = Returned \<and>
   fs_lookup (files (snd (main (demo_env ''.'' ''v1.0.0''
          (Inr [dir_entry ''a/dist/'', file_entry ''a/dist/index.html'' ''<html>'', dir_entry ''b/'']))
        work_dir))) [''work'', ''.sud''] = Some (FileN (''version: 1.0.0'' @ [newline]))"
  by code_simp

text \<open>
  C2, as the code has it: for a regular-file entry of any name, when the file system
  lets the target \<open>filepath.Join(dst, name)\<close> be opened for writing (its parent
  directory exists and it is not a directory), the extraction writes the entry's
  bytes there, changes nothing else, and goes on with the next entry. Where the
  target lies, inside \<open>dst\<close> or not, plays no part.
\<close>

theorem Untar_loop_file_entry_written_at_join:
  assumes "Typeflag header = tar_TypeReg"
    and "locate wd fs (filepath_Join [dst, Name header]) = Inr p"
    and "writable fs p = None"
  shows "\<exists>fs1. Untar_loop wd dst (NextHeader header body None # rest) fs
                 = Untar_loop wd dst rest fs1 \<and>
           fs_lookup fs1 p
             = Some (FileN (body @ drop (length body)
                               (case fs_lookup fs p of Some (FileN b) \<Rightarrow> b | _ \<Rightarrow> []))) \<and>
           (\<forall>q. q \<noteq> p \<longrightarrow> fs_lookup fs1 q = fs_lookup fs q)"
proof -
  have ne: "p \<noteq> []" using assms(3) by (auto simp: writable_def fs_lookup_def)
  let ?fs' = "if fs_lookup fs p = None then (p, FileN []) # fs else fs"
  let ?old = "case fs_lookup ?fs' p of Some (FileN b) \<Rightarrow> b | _ \<Rightarrow> []"
  let ?fs1 = "(p, FileN (body @ drop (length body) ?old)) # ?fs'"
  have "os_OpenFile wd fs (filepath_Join [dst, Name header]) = Inr (p, ?fs')"
    using assms(2,3) by (simp add: os_OpenFile_def)
  moreover have "tar_TypeReg \<noteq> tar_TypeDir" by (simp add: tar_TypeReg_def tar_TypeDir_def)
  ultimately have "Untar_loop wd dst (NextHeader header body None # rest) fs
                     = Untar_loop wd dst rest ?fs1"
    using assms(1) by (simp add: io_Copy_def Let_def)
  moreover have "?old = (case fs_lookup fs p of Some (FileN b) \<Rightarrow> b | _ \<Rightarrow> [])"
    using ne by (auto simp: fs_lookup_Cons split: option.splits node.splits)
  then have "fs_lookup ?fs1 p
      = Some (FileN (body @ drop (length body)
                               (case fs_lookup fs p of Some (FileN b) \<Rightarrow> b | _ \<Rightarrow> [])))"
    using ne by (simp add: fs_lookup_Cons)
  moreover have "\<forall>q. q \<noteq> p \<longrightarrow> fs_lookup ?fs1 q = fs_lookup fs q"
    by (auto simp: fs_lookup_Cons fs_lookup_root)
  ultimately show ?thesis by blast
qed

text \<open>
  C2, witness: the entry \<open>../../etc/passthrough\<close> extracted to \<open>extracted\<close> from
  the working directory \<open>/work\<close> has the target \<open>../etc/passthrough\<close>, that is
  \<open>/etc/passthrough\<close>, and is written there. (An absolute name such as
  \<open>/etc/passwd\<close> is joined below the destination.)
\<close>

theorem Untar_loop_file_entry_written_at_join_witness:
  "filepath_Join [''extracted'', ''/etc/passwd''] = ''extracted/etc/passwd'' \<and>
   filepath_Join [''extracted'', ''../../etc/passthrough''] = ''../etc/passthrough'' \<and>
   locate ''/work'' (([''etc''], DirN) # work_dir) ''../etc/passthrough''
     = Inr [''etc'', ''passthrough''] \<and>
   (\<exists>fs1. Untar_loop ''/work'' ''extracted'' [file_entry ''../../etc/passthrough'' ''data'']
              (([''etc''], DirN) # work_dir) = (None, fs1) \<and>
          fs_lookup fs1 [''etc'', ''passthrough''] = Some (FileN ''data''))"
proof -
  let ?h = "\<lparr>Name = ''../../etc/passthrough'', Typeflag = tar_TypeReg, Mode = 420\<rparr>"
  let ?fs = "([''etc''], DirN) # work_dir"
  have a: "filepath_Join [''extracted'', ''/etc/passwd''] = ''extracted/etc/passwd''"
    by code_simp
  have j: "filepath_Join [''extracted'', ''../../etc/passthrough''] = ''../etc/passthrough''"
    by code_simp
  have t: "Typeflag ?h = tar_TypeReg" by simp
  have l: "locate ''/work'' ?fs (filepath_Join [''extracted'', Name ?h])
             = Inr [''etc'', ''passthrough'']" by code_simp
  have w: "writable ?fs [''etc'', ''passthrough''] = None" by code_simp
  have old: "fs_lookup ?fs [''etc'', ''passthrough''] = None" by code_simp
  from Untar_loop_file_entry_written_at_join [OF t l w, where body = "''data''" and rest = "[]"]
  show ?thesis
    using a j l by (auto simp: file_entry_def old)
qed

text \<open>
  C2, counterexample to the claim as stated: the archive's one entry
  \<open>../../etc/passthrough\<close> is extracted without an error to \<open>/etc/passthrough\<close>,
  which is not below the destination \<open>/work/extracted\<close>.
\<close>

theorem Untar_escaping_entry_counterexample:
  "resolve ''/work'' ''extracted'' = Some [''work'', ''extracted''] \<and>
   fst (Untar (demo_env ''.'' ''v1.0.0'' (Inr [file_entry ''../../etc/passthrough'' ''data'']))
         ''extracted'' (Inr ''archive'') (([''etc''], DirN) # work_dir)) = None \<and>
   fs_lookup (snd (Untar (demo_env ''.'' ''v1.0.0'' (Inr [file_entry ''../../etc/passthrough'' ''data'']))
         ''extracted'' (Inr ''archive'') (([''etc''], DirN) # work_dir))) [''etc'', ''passthrough'']
     = Some (FileN ''data'') \<and>
   \<not> prefix [''work'', ''extracted''] [''etc'', ''passthrough'']"
  by code_simp

end
